theory Spec2Isabelle
  imports Complex_Main
begin

section \<open>The room canvas of InventoryManager: layout geometry\<close>

text \<open>
  The layout engine lives in the RoomCanvas component (the helpers \<open>rectanglesOverlap\<close>,
  \<open>isInsideRoom\<close>, \<open>getRoomPath\<close>, the \<open>Door\<close> component and the mouse handler
  \<open>handleMouseMove\<close>) and in \<open>LShapeEditor.tsx\<close> (\<open>legsToBackend\<close>).

  JavaScript numbers are modelled as \<^typ>\<open>real\<close>: finite values, with exact arithmetic
  everywhere but in the resize branch of the mouse handler, whose double arithmetic is
  written out with its rounding. A value of type \<open>number | null | undefined\<close> is a
  \<^typ>\<open>real option\<close>; the places where the source would produce a non-finite number (a
  division by a zero wall length) are branches of their own.
\<close>

subsection \<open>Types of the source\<close>

datatype RoomShape = rectangle | l_shape

datatype CutoutCorner = top_left | top_right | bottom_left | bottom_right

datatype DoorWall = north | south | east | west | cutout_horizontal | cutout_vertical

text \<open>
  \<open>StorageUnitBrief\<close> and \<open>BlockBrief\<close>: only the fields the canvas geometry reads.
\<close>

record Brief =
  id_of :: string
  x_of :: real
  y_of :: real
  width_of :: real
  height_of :: real

text \<open>
  Truthiness of an optional number, as in \<open>!cutoutWidth\<close> and \<open>a || b\<close>: \<open>null\<close>,
  \<open>undefined\<close> and \<open>0\<close> are falsy.
\<close>

definition truthy :: "real option \<Rightarrow> bool" where
  "truthy v = (case v of None \<Rightarrow> False | Some r \<Rightarrow> r \<noteq> 0)"

definition or_else :: "real option \<Rightarrow> real \<Rightarrow> real" where
  "or_else v d = (case v of None \<Rightarrow> d | Some r \<Rightarrow> if r \<noteq> 0 then r else d)"

subsection \<open>rectanglesOverlap\<close>

definition tolerance :: real where
  "tolerance = 0.01"

definition rectanglesOverlap ::
  "real \<Rightarrow> real \<Rightarrow> real \<Rightarrow> real \<Rightarrow> real \<Rightarrow> real \<Rightarrow> real \<Rightarrow> real \<Rightarrow> bool" where
  "rectanglesOverlap x1 y1 w1 h1 x2 y2 w2 h2 =
     (x1 < x2 + w2 - tolerance \<and>
      x1 + w1 > x2 + tolerance \<and>
      y1 < y2 + h2 - tolerance \<and>
      y1 + h1 > y2 + tolerance)"

subsection \<open>isInsideRoom\<close>

text \<open>
  The cutout rectangle \<open>(cutoutX1, cutoutY1, cutoutX2, cutoutY2)\<close> of the \<open>switch\<close> in
  \<open>isInsideRoom\<close>.
\<close>

fun cutoutRect :: "CutoutCorner \<Rightarrow> real \<Rightarrow> real \<Rightarrow> real \<Rightarrow> real \<Rightarrow> real \<times> real \<times> real \<times> real" where
  "cutoutRect top_right roomWidth roomHeight cw ch = (roomWidth - cw, 0, roomWidth, ch)"
| "cutoutRect top_left roomWidth roomHeight cw ch = (0, 0, cw, ch)"
| "cutoutRect bottom_right roomWidth roomHeight cw ch =
     (roomWidth - cw, roomHeight - ch, roomWidth, roomHeight)"
| "cutoutRect bottom_left roomWidth roomHeight cw ch = (0, roomHeight - ch, cw, roomHeight)"

definition isInsideRoom ::
  "real \<Rightarrow> real \<Rightarrow> real \<Rightarrow> real \<Rightarrow> real \<Rightarrow> real \<Rightarrow> RoomShape \<Rightarrow>
   real option \<Rightarrow> real option \<Rightarrow> CutoutCorner option \<Rightarrow> bool" where
  "isInsideRoom x y width height roomWidth roomHeight shape cutoutWidth cutoutHeight cutoutCorner =
     (if x < 0 \<or> y < 0 \<or> x + width > roomWidth \<or> y + height > roomHeight then False
      else if shape = rectangle \<or> \<not> truthy cutoutWidth \<or> \<not> truthy cutoutHeight
              \<or> cutoutCorner = None then True
      else
        (case cutoutRect (the cutoutCorner) roomWidth roomHeight (the cutoutWidth) (the cutoutHeight) of
           (cutoutX1, cutoutY1, cutoutX2, cutoutY2) \<Rightarrow>
             let overlapsWithCutout =
                   (x < cutoutX2 \<and> x + width > cutoutX1 \<and> y < cutoutY2 \<and> y + height > cutoutY1)
             in \<not> overlapsWithCutout))"

subsection \<open>getRoomPath\<close>

text \<open>
  The SVG path \<open>M x0 y0 L x1 y1 ... Z\<close> is modelled by the list of its vertices.
\<close>

definition getRoomPath ::
  "real \<Rightarrow> real \<Rightarrow> real \<Rightarrow> RoomShape \<Rightarrow> real option \<Rightarrow> real option \<Rightarrow> CutoutCorner option
   \<Rightarrow> (real \<times> real) list" where
  "getRoomPath width height scale shape cutoutWidth cutoutHeight cutoutCorner =
     (let w = width * scale; h = height * scale in
      if shape = rectangle \<or> \<not> truthy cutoutWidth \<or> \<not> truthy cutoutHeight
      then [(0, 0), (w, 0), (w, h), (0, h)]
      else
        let cw = the cutoutWidth * scale; ch = the cutoutHeight * scale in
        (case cutoutCorner of
           Some top_right \<Rightarrow> [(0, 0), (w - cw, 0), (w - cw, ch), (w, ch), (w, h), (0, h)]
         | Some top_left \<Rightarrow> [(cw, 0), (w, 0), (w, h), (0, h), (0, ch), (cw, ch)]
         | Some bottom_right \<Rightarrow> [(0, 0), (w, 0), (w, h - ch), (w - cw, h - ch), (w - cw, h), (0, h)]
         | Some bottom_left \<Rightarrow> [(0, 0), (w, 0), (w, h), (cw, h), (cw, h - ch), (0, h - ch)]
         | None \<Rightarrow> [(0, 0), (w - cw, 0), (w - cw, ch), (w, ch), (w, h), (0, h)]))"

subsection \<open>The Door component\<close>

text \<open>
  \<open>isLShape = shape === 'l_shape' && cutoutWidth && cutoutHeight && cutoutCorner\<close>, in
  \<open>Door\<close> and again in \<open>handleMouseMove\<close>.
\<close>

definition isLShape :: "RoomShape \<Rightarrow> real option \<Rightarrow> real option \<Rightarrow> CutoutCorner option \<Rightarrow> bool" where
  "isLShape shape cutoutWidth cutoutHeight cutoutCorner =
     (shape = l_shape \<and> truthy cutoutWidth \<and> truthy cutoutHeight \<and> cutoutCorner \<noteq> None)"

text \<open>
  The geometry \<open>Door\<close> computes before it renders: the hinge, the end of the leaf, the
  opening in the wall, and the effective wall length and offset. (The arc path is drawn
  from the same numbers and is left out.)
\<close>

record DoorGeom =
  hingeX :: real
  hingeY :: real
  leafEndX :: real
  leafEndY :: real
  openingX :: real
  openingY :: real
  openingW :: real
  openingH :: real
  wallLength :: real
  wallOffset :: real

definition wallThickness :: real where
  "wallThickness = 4"

definition Door ::
  "DoorWall \<Rightarrow> real \<Rightarrow> real \<Rightarrow> real \<Rightarrow> real \<Rightarrow> real \<Rightarrow> RoomShape \<Rightarrow>
   real option \<Rightarrow> real option \<Rightarrow> CutoutCorner option \<Rightarrow> DoorGeom" where
  "Door wall position doorWidth roomWidth roomHeight scale shape cutoutWidth cutoutHeight cutoutCorner =
     (let dw = doorWidth * scale;
          rw = roomWidth * scale;
          rh = roomHeight * scale;
          cw = or_else cutoutWidth 0 * scale;
          ch = or_else cutoutHeight 0 * scale;
          isL = isLShape shape cutoutWidth cutoutHeight cutoutCorner
      in case wall of
        north \<Rightarrow>
          let (wallLength, wallOffset) =
                (if isL \<and> (cutoutCorner = Some top_left \<or> cutoutCorner = Some top_right)
                 then (rw - cw, if cutoutCorner = Some top_left then cw else 0)
                 else (rw, 0));
              hingeX = wallOffset + position * wallLength - dw / 2
          in \<lparr> hingeX = hingeX, hingeY = 0, leafEndX = hingeX, leafEndY = dw,
               openingX = hingeX, openingY = - wallThickness, openingW = dw,
               openingH = wallThickness * 2, wallLength = wallLength, wallOffset = wallOffset \<rparr>
      | south \<Rightarrow>
          let (wallLength, wallOffset) =
                (if isL \<and> (cutoutCorner = Some bottom_left \<or> cutoutCorner = Some bottom_right)
                 then (rw - cw, if cutoutCorner = Some bottom_left then cw else 0)
                 else (rw, 0));
              hingeX = wallOffset + position * wallLength - dw / 2
          in \<lparr> hingeX = hingeX, hingeY = rh, leafEndX = hingeX, leafEndY = rh - dw,
               openingX = hingeX, openingY = rh - wallThickness, openingW = dw,
               openingH = wallThickness * 2, wallLength = wallLength, wallOffset = wallOffset \<rparr>
      | east \<Rightarrow>
          let (wallLength, wallOffset) =
                (if isL \<and> (cutoutCorner = Some top_right \<or> cutoutCorner = Some bottom_right)
                 then (rh - ch, if cutoutCorner = Some top_right then ch else 0)
                 else (rh, 0));
              hingeY = wallOffset + position * wallLength - dw / 2
          in \<lparr> hingeX = rw, hingeY = hingeY, leafEndX = rw - dw, leafEndY = hingeY,
               openingX = rw - wallThickness, openingY = hingeY, openingW = wallThickness * 2,
               openingH = dw, wallLength = wallLength, wallOffset = wallOffset \<rparr>
      | west \<Rightarrow>
          let (wallLength, wallOffset) =
                (if isL \<and> (cutoutCorner = Some top_left \<or> cutoutCorner = Some bottom_left)
                 then (rh - ch, if cutoutCorner = Some top_left then ch else 0)
                 else (rh, 0));
              hingeY = wallOffset + position * wallLength - dw / 2
          in \<lparr> hingeX = 0, hingeY = hingeY, leafEndX = dw, leafEndY = hingeY,
               openingX = - wallThickness, openingY = hingeY, openingW = wallThickness * 2,
               openingH = dw, wallLength = wallLength, wallOffset = wallOffset \<rparr>
      | cutout_horizontal \<Rightarrow>
          if \<not> isL then
            \<lparr> hingeX = 0, hingeY = 0, leafEndX = 0, leafEndY = 0, openingX = 0, openingY = 0,
              openingW = 0, openingH = 0, wallLength = 0, wallOffset = 0 \<rparr>
          else
            let wallLength = cw;
                wallY = (if cutoutCorner = Some top_left \<or> cutoutCorner = Some top_right
                         then ch else rh - ch);
                wallStartX = (if cutoutCorner = Some top_left \<or> cutoutCorner = Some bottom_left
                              then 0 else rw - cw);
                swingDown = (cutoutCorner = Some top_left \<or> cutoutCorner = Some top_right);
                hingeX = wallStartX + position * wallLength - dw / 2
            in \<lparr> hingeX = hingeX, hingeY = wallY, leafEndX = hingeX,
                 leafEndY = (if swingDown then wallY + dw else wallY - dw),
                 openingX = hingeX, openingY = wallY - wallThickness, openingW = dw,
                 openingH = wallThickness * 2, wallLength = wallLength, wallOffset = 0 \<rparr>
      | cutout_vertical \<Rightarrow>
          if \<not> isL then
            \<lparr> hingeX = 0, hingeY = 0, leafEndX = 0, leafEndY = 0, openingX = 0, openingY = 0,
              openingW = 0, openingH = 0, wallLength = 0, wallOffset = 0 \<rparr>
          else
            let wallLength = ch;
                wallX = (if cutoutCorner = Some top_left \<or> cutoutCorner = Some bottom_left
                         then cw else rw - cw);
                wallStartY = (if cutoutCorner = Some top_left \<or> cutoutCorner = Some top_right
                              then 0 else rh - ch);
                swingRight = (cutoutCorner = Some top_left \<or> cutoutCorner = Some bottom_left);
                hingeY = wallStartY + position * wallLength - dw / 2
            in \<lparr> hingeX = wallX, hingeY = hingeY,
                 leafEndX = (if swingRight then wallX + dw else wallX - dw), leafEndY = hingeY,
                 openingX = wallX - wallThickness, openingY = hingeY,
                 openingW = wallThickness * 2, openingH = dw,
                 wallLength = wallLength, wallOffset = 0 \<rparr>)"

subsection \<open>The RoomCanvas component: props, state and canvas settings\<close>

record Props =
  prop_width :: real
  prop_height :: real
  prop_units :: "Brief list"
  prop_blocks :: "Brief list"
  prop_shape :: RoomShape
  prop_shapeCutoutWidth :: "real option"
  prop_shapeCutoutHeight :: "real option"
  prop_shapeCutoutCorner :: "CutoutCorner option"
  prop_doorWidth :: "real option"

datatype DragType = drag_unit | drag_block | drag_door | drag_resize_unit | drag_resize_block

record Dragging =
  drag_type :: DragType
  drag_id :: "string option"
  drag_handle :: bool
  drag_startX :: "real option"
  drag_startY :: "real option"
  drag_startWidth :: "real option"
  drag_startHeight :: "real option"

text \<open>
  A number the source computes that may be non-finite (\<open>Infinity\<close> or \<open>NaN\<close>, from a
  division by zero).
\<close>

datatype jsnum = Finite real | NonFinite

text \<open>
  The React state of the component that the mouse handler reads and writes. The
  callbacks \<open>onUnitMove\<close>, \<open>onBlockMove\<close> and \<open>onDoorMove\<close> receive the very values
  stored in \<open>localPosition\<close>, \<open>localDoorWall\<close> and \<open>localDoorPosition\<close>.
\<close>

record CanvasState =
  dragging :: "Dragging option"
  dragOffset :: "real \<times> real"
  localDoorWall :: "DoorWall option"
  localDoorPosition :: "jsnum option"
  localSize :: "(string \<times> real \<times> real) option"
  localPosition :: "(string \<times> real \<times> real) option"

definition canvasWidth :: real where
  "canvasWidth = 800"

definition canvasHeight :: real where
  "canvasHeight = 600"

definition roomWidth_of :: "Props \<Rightarrow> real" where
  "roomWidth_of p = or_else (Some (prop_width p)) 10"

definition roomHeight_of :: "Props \<Rightarrow> real" where
  "roomHeight_of p = or_else (Some (prop_height p)) 10"

definition scale_of :: "Props \<Rightarrow> real" where
  "scale_of p =
     (let scaleX = canvasWidth / roomWidth_of p; scaleY = canvasHeight / roomHeight_of p
      in min scaleX scaleY * 0.85)"

definition offsetX_of :: "Props \<Rightarrow> real" where
  "offsetX_of p = (canvasWidth - roomWidth_of p * scale_of p) / 2"

definition offsetY_of :: "Props \<Rightarrow> real" where
  "offsetY_of p = (canvasHeight - roomHeight_of p * scale_of p) / 2"

subsection \<open>handleMouseMove: dragging the door\<close>

text \<open>
  A distance is \<open>Some d\<close> or \<open>None\<close> for \<open>Infinity\<close>; \<open>distLess\<close> is \<open><\<close> on them.
\<close>

fun distLess :: "real option \<Rightarrow> real option \<Rightarrow> bool" where
  "distLess (Some a) (Some b) = (a < b)"
| "distLess (Some a) None = True"
| "distLess None b = False"

definition distToCutoutH ::
  "real \<Rightarrow> real \<Rightarrow> real \<Rightarrow> real \<Rightarrow> real \<Rightarrow> real \<Rightarrow> CutoutCorner option \<Rightarrow> real" where
  "distToCutoutH localX localY rw rh cw ch shapeCutoutCorner =
     (let cutoutHY = (if shapeCutoutCorner = Some top_left \<or> shapeCutoutCorner = Some top_right
                      then ch else rh - ch);
          cutoutHStartX = (if shapeCutoutCorner = Some top_left \<or> shapeCutoutCorner = Some bottom_left
                           then 0 else rw - cw);
          cutoutHEndX = cutoutHStartX + cw;
          clampedHX = max cutoutHStartX (min cutoutHEndX localX);
          dxH = localX - clampedHX;
          dyH = localY - cutoutHY
      in sqrt (dxH * dxH + dyH * dyH))"

definition distToCutoutV ::
  "real \<Rightarrow> real \<Rightarrow> real \<Rightarrow> real \<Rightarrow> real \<Rightarrow> real \<Rightarrow> CutoutCorner option \<Rightarrow> real" where
  "distToCutoutV localX localY rw rh cw ch shapeCutoutCorner =
     (let cutoutVX = (if shapeCutoutCorner = Some top_left \<or> shapeCutoutCorner = Some bottom_left
                      then cw else rw - cw);
          cutoutVStartY = (if shapeCutoutCorner = Some top_left \<or> shapeCutoutCorner = Some top_right
                           then 0 else rh - ch);
          cutoutVEndY = cutoutVStartY + ch;
          clampedVY = max cutoutVStartY (min cutoutVEndY localY);
          dxV = localX - cutoutVX;
          dyV = localY - clampedVY
      in sqrt (dxV * dxV + dyV * dyV))"

text \<open>
  \<open>allDistances.reduce((min, curr) => curr.dist < min.dist ? curr : min)\<close>: the first
  wall of the least distance wins.
\<close>

definition closestWall ::
  "bool \<Rightarrow> real \<Rightarrow> real \<Rightarrow> real \<Rightarrow> real \<Rightarrow> real \<Rightarrow> real \<Rightarrow> CutoutCorner option \<Rightarrow> DoorWall" where
  "closestWall isL localX localY rw rh cw ch shapeCutoutCorner =
     (let distToNorth = localY;
          distToSouth = rh - localY;
          distToWest = localX;
          distToEast = rw - localX;
          distH = (if isL then Some (distToCutoutH localX localY rw rh cw ch shapeCutoutCorner)
                   else None);
          distV = (if isL then Some (distToCutoutV localX localY rw rh cw ch shapeCutoutCorner)
                   else None);
          allDistances =
            [(north, Some distToNorth), (south, Some distToSouth), (west, Some distToWest),
             (east, Some distToEast), (cutout_horizontal, distH), (cutout_vertical, distV)]
      in fst (foldl (\<lambda>m curr. if distLess (snd curr) (snd m) then curr else m)
                (hd allDistances) (tl allDistances)))"

text \<open>
  The \<open>switch (newWall)\<close> of the door branch: \<open>(wallLengthScaled, wallOffsetScaled)\<close> and
  the pointer coordinate that runs along the wall.
\<close>

definition wallRunScaled ::
  "DoorWall \<Rightarrow> bool \<Rightarrow> real \<Rightarrow> real \<Rightarrow> real \<Rightarrow> real \<Rightarrow> CutoutCorner option \<Rightarrow> real \<times> real" where
  "wallRunScaled newWall isL rw rh cw ch shapeCutoutCorner =
     (case newWall of
        north \<Rightarrow>
          if isL \<and> (shapeCutoutCorner = Some top_left \<or> shapeCutoutCorner = Some top_right)
          then (rw - cw, if shapeCutoutCorner = Some top_left then cw else 0)
          else (rw, 0)
      | south \<Rightarrow>
          if isL \<and> (shapeCutoutCorner = Some bottom_left \<or> shapeCutoutCorner = Some bottom_right)
          then (rw - cw, if shapeCutoutCorner = Some bottom_left then cw else 0)
          else (rw, 0)
      | west \<Rightarrow>
          if isL \<and> (shapeCutoutCorner = Some top_left \<or> shapeCutoutCorner = Some bottom_left)
          then (rh - ch, if shapeCutoutCorner = Some top_left then ch else 0)
          else (rh, 0)
      | east \<Rightarrow>
          if isL \<and> (shapeCutoutCorner = Some top_right \<or> shapeCutoutCorner = Some bottom_right)
          then (rh - ch, if shapeCutoutCorner = Some top_right then ch else 0)
          else (rh, 0)
      | cutout_horizontal \<Rightarrow>
          (cw, if shapeCutoutCorner = Some top_left \<or> shapeCutoutCorner = Some bottom_left
               then 0 else rw - cw)
      | cutout_vertical \<Rightarrow>
          (ch, if shapeCutoutCorner = Some top_left \<or> shapeCutoutCorner = Some top_right
               then 0 else rh - ch))"

fun alongWall :: "DoorWall \<Rightarrow> real \<Rightarrow> real \<Rightarrow> real" where
  "alongWall north localX localY = localX"
| "alongWall south localX localY = localX"
| "alongWall west localX localY = localY"
| "alongWall east localX localY = localY"
| "alongWall cutout_horizontal localX localY = localX"
| "alongWall cutout_vertical localX localY = localY"

text \<open>
  \<open>newPos = (local - wallOffsetScaled) / wallLengthScaled\<close>, before the clamp. With a
  wall of length zero the source divides by zero.
\<close>

definition normalizePos :: "DoorWall \<Rightarrow> real \<Rightarrow> real \<Rightarrow> real \<Rightarrow> real \<Rightarrow> real" where
  "normalizePos newWall localX localY wallLengthScaled wallOffsetScaled =
     (alongWall newWall localX localY - wallOffsetScaled) / wallLengthScaled"

text \<open>
  \<open>Math.max(doorW / 2 + 0.02, Math.min(1 - doorW / 2 - 0.02, newPos))\<close> with
  \<open>doorW = (doorWidth || 1) / effectiveWallLength\<close>.
\<close>

definition clampDoorPos :: "real \<Rightarrow> real \<Rightarrow> real \<Rightarrow> real" where
  "clampDoorPos doorWidth1 effectiveWallLength newPos =
     (let doorW = doorWidth1 / effectiveWallLength
      in max (doorW / 2 + 0.02) (min (1 - doorW / 2 - 0.02) newPos))"

text \<open>
  The intermediate values of the door branch: the room and its cutout in canvas units,
  the pointer in room-local canvas coordinates, the closest wall, and the run of a wall.
\<close>

definition rw_of :: "Props \<Rightarrow> real" where
  "rw_of p = roomWidth_of p * scale_of p"

definition rh_of :: "Props \<Rightarrow> real" where
  "rh_of p = roomHeight_of p * scale_of p"

definition cw_of :: "Props \<Rightarrow> real" where
  "cw_of p = or_else (prop_shapeCutoutWidth p) 0 * scale_of p"

definition ch_of :: "Props \<Rightarrow> real" where
  "ch_of p = or_else (prop_shapeCutoutHeight p) 0 * scale_of p"

definition isLShape_of :: "Props \<Rightarrow> bool" where
  "isLShape_of p =
     isLShape (prop_shape p) (prop_shapeCutoutWidth p) (prop_shapeCutoutHeight p)
       (prop_shapeCutoutCorner p)"

definition localX_of :: "Props \<Rightarrow> real \<times> real \<Rightarrow> real" where
  "localX_of p svgP = fst svgP - offsetX_of p"

definition localY_of :: "Props \<Rightarrow> real \<times> real \<Rightarrow> real" where
  "localY_of p svgP = snd svgP - offsetY_of p"

definition newWall_of :: "Props \<Rightarrow> real \<times> real \<Rightarrow> DoorWall" where
  "newWall_of p svgP =
     closestWall (isLShape_of p) (localX_of p svgP) (localY_of p svgP)
       (rw_of p) (rh_of p) (cw_of p) (ch_of p) (prop_shapeCutoutCorner p)"

definition wallLengthScaled_of :: "Props \<Rightarrow> DoorWall \<Rightarrow> real" where
  "wallLengthScaled_of p wall =
     fst (wallRunScaled wall (isLShape_of p) (rw_of p) (rh_of p) (cw_of p) (ch_of p)
            (prop_shapeCutoutCorner p))"

definition wallOffsetScaled_of :: "Props \<Rightarrow> DoorWall \<Rightarrow> real" where
  "wallOffsetScaled_of p wall =
     snd (wallRunScaled wall (isLShape_of p) (rw_of p) (rh_of p) (cw_of p) (ch_of p)
            (prop_shapeCutoutCorner p))"

definition effectiveWallLength_of :: "Props \<Rightarrow> DoorWall \<Rightarrow> real" where
  "effectiveWallLength_of p wall = wallLengthScaled_of p wall / scale_of p"

definition doorDrag :: "Props \<Rightarrow> real \<times> real \<Rightarrow> DoorWall \<times> jsnum" where
  "doorDrag p svgP =
     (let newWall = newWall_of p svgP;
          wallLengthScaled = wallLengthScaled_of p newWall;
          wallOffsetScaled = wallOffsetScaled_of p newWall
      in if wallLengthScaled = 0 \<or> scale_of p = 0 then (newWall, NonFinite)
         else (newWall,
               Finite (clampDoorPos (or_else (prop_doorWidth p) 1)
                         (effectiveWallLength_of p newWall)
                         (normalizePos newWall (localX_of p svgP) (localY_of p svgP)
                            wallLengthScaled wallOffsetScaled))))"

subsection \<open>handleMouseMove: dragging a unit or a block\<close>

text \<open>
  \<open>isValidPosition\<close> for the dragged element \<open>el\<close>: \<open>same\<close> is the list the element
  belongs to (its own entry is skipped by id), \<open>other\<close> the list of the other kind
  (units for a block, blocks for a unit).
\<close>

definition isValidPosition ::
  "Props \<Rightarrow> Brief \<Rightarrow> Brief list \<Rightarrow> Brief list \<Rightarrow> real \<Rightarrow> real \<Rightarrow> bool" where
  "isValidPosition p el same other x y =
     (if \<not> isInsideRoom x y (width_of el) (height_of el) (roomWidth_of p) (roomHeight_of p)
             (prop_shape p) (prop_shapeCutoutWidth p) (prop_shapeCutoutHeight p)
             (prop_shapeCutoutCorner p)
      then False
      else
        let collidesWithSame =
              list_ex (\<lambda>ot. id_of ot \<noteq> id_of el \<and>
                 rectanglesOverlap x y (width_of el) (height_of el)
                   (x_of ot) (y_of ot) (width_of ot) (height_of ot)) same;
            collidesWithOther =
              list_ex (\<lambda>ot.
                 rectanglesOverlap x y (width_of el) (height_of el)
                   (x_of ot) (y_of ot) (width_of ot) (height_of ot)) other
        in \<not> collidesWithSame \<and> \<not> collidesWithOther)"

text \<open>
  The choice of \<open>(finalX, finalY)\<close>: the full movement first, then the two single-axis
  tests, each of which assigns its own coordinate.
\<close>

definition resolveDrag ::
  "(real \<Rightarrow> real \<Rightarrow> bool) \<Rightarrow> real \<times> real \<Rightarrow> real \<times> real \<Rightarrow> real \<times> real" where
  "resolveDrag valid current clamped =
     (let currentX = fst current; currentY = snd current;
          clampedX = fst clamped; clampedY = snd clamped
      in if valid clampedX clampedY then (clampedX, clampedY)
         else
           let finalX = (if valid clampedX currentY then clampedX else currentX);
               finalY = (if valid currentX clampedY then clampedY else currentY)
           in (finalX, finalY))"

definition currentPosition :: "CanvasState \<Rightarrow> Brief \<Rightarrow> real \<times> real" where
  "currentPosition st el =
     (case localPosition st of
        None \<Rightarrow> (x_of el, y_of el)
      | Some (i, lx, ly) \<Rightarrow> (lx, ly))"

definition clampedPosition :: "Props \<Rightarrow> CanvasState \<Rightarrow> Brief \<Rightarrow> real \<times> real \<Rightarrow> real \<times> real" where
  "clampedPosition p st el svgP =
     (let newX = (fst svgP - offsetX_of p - fst (dragOffset st)) / scale_of p;
          newY = (snd svgP - offsetY_of p - snd (dragOffset st)) / scale_of p;
          clampedX = max 0 (min (roomWidth_of p - width_of el) newX);
          clampedY = max 0 (min (roomHeight_of p - height_of el) newY)
      in (clampedX, clampedY))"

definition dragElement ::
  "Props \<Rightarrow> CanvasState \<Rightarrow> string \<Rightarrow> Brief \<Rightarrow> Brief list \<Rightarrow> Brief list \<Rightarrow> real \<times> real
   \<Rightarrow> CanvasState" where
  "dragElement p st did el same other svgP =
     (let current = currentPosition st el;
          final = resolveDrag (isValidPosition p el same other) current
                    (clampedPosition p st el svgP)
      in if fst final \<noteq> fst current \<or> snd final \<noteq> snd current
         then st \<lparr> localPosition := Some (did, fst final, snd final) \<rparr>
         else st)"

subsection \<open>handleMouseMove: resizing a unit or a block\<close>

text \<open>
  In this branch the rounding of double arithmetic decides which size is committed (a
  sum such as \<open>1.55\<close> that a double cannot hold rounds to the tenth below, a difference
  \<open>roomWidth - x\<close> may come out one unit in the last place too large), so the arithmetic
  that builds the candidate size is written out operation by operation: \<open>fl\<close> rounds an
  exact result to the nearest double (IEEE 754 binary64, ties to even, subnormals
  included; magnitudes stay below \<open>2 ^ 1024\<close>). Comparisons, \<open>Math.max\<close>, \<open>Math.min\<close> and
  \<open>Math.round\<close> are exact on doubles. The candidate is tested with \<open>isInsideRoom\<close> and
  \<open>rectanglesOverlap\<close> as defined above.
\<close>

text \<open>Rounding to the nearest integer, ties to the even one.\<close>

definition rhe :: "real \<Rightarrow> int" where
  "rhe y = (let f = \<lfloor>y\<rfloor> in
            if y - of_int f < 1 / 2 then f
            else if 1 / 2 < y - of_int f then f + 1
            else if even f then f else f + 1)"

text \<open>
  The exponent of the unit in the last place of a double of the magnitude of \<open>x\<close>:
  53 significant bits, the least exponent \<open>- 1022\<close>.
\<close>

definition ulp_exp :: "real \<Rightarrow> int" where
  "ulp_exp x = max \<lfloor>log 2 \<bar>x\<bar>\<rfloor> (- 1022) - 52"

definition fl :: "real \<Rightarrow> real" where
  "fl x = (if x = 0 then 0
           else of_int (rhe (x / 2 powr of_int (ulp_exp x))) * 2 powr of_int (ulp_exp x))"

text \<open>
  \<open>scale = Math.min(canvasWidth / roomWidth, canvasHeight / roomHeight) * 0.85\<close>, as the
  doubles compute it.
\<close>

definition scale_fl_of :: "Props \<Rightarrow> real" where
  "scale_fl_of p =
     (let scaleX = fl (canvasWidth / roomWidth_of p);
          scaleY = fl (canvasHeight / roomHeight_of p)
      in fl (min scaleX scaleY * fl 0.85))"

text \<open>
  \<open>Math.round\<close>: to the nearest integer, halves upwards. The result is exact, whatever
  the double.
\<close>

definition js_round :: "real \<Rightarrow> real" where
  "js_round v = of_int \<lfloor>v + 1 / 2\<rfloor>"

text \<open>\<open>(localSize?.width || element.width, localSize?.height || element.height)\<close>.\<close>

definition previousSize :: "CanvasState \<Rightarrow> Brief \<Rightarrow> real \<times> real" where
  "previousSize st element =
     (or_else (map_option (\<lambda>(i, w, h). w) (localSize st)) (width_of element),
      or_else (map_option (\<lambda>(i, w, h). h) (localSize st)) (height_of element))"

text \<open>
  The collision test of the resize branch, for an element of the list \<open>same\<close> next to
  the list \<open>other\<close> of the other kind.
\<close>

definition collidesAt :: "Brief \<Rightarrow> Brief list \<Rightarrow> Brief list \<Rightarrow> real \<Rightarrow> real \<Rightarrow> bool" where
  "collidesAt element same other newWidth newHeight =
     (let collidesWithSame =
            list_ex (\<lambda>ot. id_of ot \<noteq> id_of element \<and>
               rectanglesOverlap (x_of element) (y_of element) newWidth newHeight
                 (x_of ot) (y_of ot) (width_of ot) (height_of ot)) same;
          collidesWithOther =
            list_ex (\<lambda>ot.
               rectanglesOverlap (x_of element) (y_of element) newWidth newHeight
                 (x_of ot) (y_of ot) (width_of ot) (height_of ot)) other
      in collidesWithSame \<or> collidesWithOther)"

text \<open>The size proposed by the pointer: floored at 0.5 and rounded to 0.1.\<close>

definition proposedSize :: "Props \<Rightarrow> Dragging \<Rightarrow> real \<times> real \<Rightarrow> real \<times> real" where
  "proposedSize p d svgP =
     (let deltaX = fl (fl (fst svgP - or_else (drag_startX d) 0) / scale_fl_of p);
          deltaY = fl (fl (snd svgP - or_else (drag_startY d) 0) / scale_fl_of p);
          startWidth = or_else (drag_startWidth d) 1;
          startHeight = or_else (drag_startHeight d) 1;
          newWidth = max 0.5 (fl (startWidth + deltaX));
          newHeight = max 0.5 (fl (startHeight + deltaY))
      in (fl (js_round (fl (newWidth * 10)) / 10), fl (js_round (fl (newHeight * 10)) / 10)))"

text \<open>The part of the resize branch under \<open>if (element)\<close>.\<close>

definition constrainResize ::
  "Props \<Rightarrow> CanvasState \<Rightarrow> Brief \<Rightarrow> Brief list \<Rightarrow> Brief list \<Rightarrow> real \<times> real \<Rightarrow> real \<times> real" where
  "constrainResize p st element same other new =
     (let maxWidth = fl (roomWidth_of p - x_of element);
          maxHeight = fl (roomHeight_of p - y_of element);
          newWidth = min (fst new) maxWidth;
          newHeight = min (snd new) maxHeight;
          (newWidth, newHeight) =
            (if \<not> isInsideRoom (x_of element) (y_of element) newWidth newHeight
                    (roomWidth_of p) (roomHeight_of p) (prop_shape p) (prop_shapeCutoutWidth p)
                    (prop_shapeCutoutHeight p) (prop_shapeCutoutCorner p)
             then previousSize st element
             else (newWidth, newHeight))
      in if collidesAt element same other newWidth newHeight
         then previousSize st element
         else (newWidth, newHeight))"

definition resizeElement :: "Props \<Rightarrow> CanvasState \<Rightarrow> Dragging \<Rightarrow> string \<Rightarrow> real \<times> real \<Rightarrow> CanvasState" where
  "resizeElement p st d did svgP =
     (let new = proposedSize p d svgP;
          final =
            (if drag_type d = drag_resize_unit
             then (case find (\<lambda>u. id_of u = did) (prop_units p) of
                     None \<Rightarrow> new
                   | Some element \<Rightarrow>
                       constrainResize p st element (prop_units p) (prop_blocks p) new)
             else (case find (\<lambda>b. id_of b = did) (prop_blocks p) of
                     None \<Rightarrow> new
                   | Some element \<Rightarrow>
                       constrainResize p st element (prop_blocks p) (prop_units p) new))
      in st \<lparr> localSize := Some (did, fst final, snd final) \<rparr>)"

subsection \<open>handleMouseMove\<close>

text \<open>A string is truthy when it is present and not empty.\<close>

definition truthy_id :: "string option \<Rightarrow> bool" where
  "truthy_id i = (case i of None \<Rightarrow> False | Some s \<Rightarrow> s \<noteq> [])"

definition handleMouseMove :: "Props \<Rightarrow> CanvasState \<Rightarrow> real \<times> real \<Rightarrow> CanvasState" where
  "handleMouseMove p st svgP =
     (case dragging st of
        None \<Rightarrow> st
      | Some d \<Rightarrow>
          if drag_type d = drag_door then
            (let (newWall, newPos) = doorDrag p svgP
             in st \<lparr> localDoorWall := Some newWall, localDoorPosition := Some newPos \<rparr>)
          else if drag_type d = drag_unit \<and> truthy_id (drag_id d) then
            (case find (\<lambda>u. id_of u = the (drag_id d)) (prop_units p) of
               None \<Rightarrow> st
             | Some unit \<Rightarrow>
                 dragElement p st (the (drag_id d)) unit (prop_units p) (prop_blocks p) svgP)
          else if drag_type d = drag_block \<and> truthy_id (drag_id d) then
            (case find (\<lambda>b. id_of b = the (drag_id d)) (prop_blocks p) of
               None \<Rightarrow> st
             | Some block \<Rightarrow>
                 dragElement p st (the (drag_id d)) block (prop_blocks p) (prop_units p) svgP)
          else if (drag_type d = drag_resize_unit \<or> drag_type d = drag_resize_block)
                  \<and> truthy_id (drag_id d) \<and> drag_handle d then
            resizeElement p st d (the (drag_id d)) svgP
          else st)"

subsection \<open>LShapeEditor: legsToBackend and backendToLegs\<close>

record LShapeConfig =
  cfg_orientation :: CutoutCorner
  cfg_verticalLegWidth :: real
  cfg_verticalLegHeight :: real
  cfg_horizontalLegWidth :: real
  cfg_horizontalLegHeight :: real

record BackendShape =
  be_width :: real
  be_height :: real
  be_cutoutWidth :: real
  be_cutoutHeight :: real

definition legsToBackend :: "LShapeConfig \<Rightarrow> BackendShape" where
  "legsToBackend config =
     (let width = max (cfg_verticalLegWidth config) (cfg_horizontalLegWidth config);
          height = cfg_verticalLegHeight config + cfg_horizontalLegHeight config;
          cutoutWidth =
            (if cfg_orientation config = top_right \<or> cfg_orientation config = bottom_right
             then width - cfg_verticalLegWidth config
             else width - cfg_verticalLegWidth config);
          cutoutHeight = height - cfg_horizontalLegHeight config;
          cutoutWidth = max 0 cutoutWidth;
          cutoutHeight = max 0 cutoutHeight
      in \<lparr> be_width = width, be_height = height,
           be_cutoutWidth = cutoutWidth, be_cutoutHeight = cutoutHeight \<rparr>)"

definition backendToLegs ::
  "real \<Rightarrow> real \<Rightarrow> real option \<Rightarrow> real option \<Rightarrow> CutoutCorner \<Rightarrow> LShapeConfig" where
  "backendToLegs width height cutoutWidth cutoutHeight orientation =
     (let cw = or_else cutoutWidth (width * 0.4);
          ch = or_else cutoutHeight (height * 0.4)
      in \<lparr> cfg_orientation = orientation,
           cfg_verticalLegWidth = width - cw,
           cfg_verticalLegHeight = ch,
           cfg_horizontalLegWidth = width,
           cfg_horizontalLegHeight = height - ch \<rparr>)"

text \<open>
  The data the editor hands to its parent through \<open>onChange\<close> whenever the configuration
  changes: \<open>(width, height, shape_cutout_corner, shape_cutout_width, shape_cutout_height)\<close>.
  The effect runs unconditionally.
\<close>

definition onChangeData :: "LShapeConfig \<Rightarrow> real \<times> real \<times> CutoutCorner \<times> real \<times> real" where
  "onChangeData config =
     (let backend = legsToBackend config
      in (be_width backend, be_height backend, cfg_orientation config,
          be_cutoutWidth backend, be_cutoutHeight backend))"

subsection \<open>Notions of the specification\<close>

text \<open>
  The shape invariant of an L-shaped room: \<open>0 < cw < W\<close> and \<open>0 < ch < H\<close>.
\<close>

definition shapeInvariant :: "real \<Rightarrow> real \<Rightarrow> real \<Rightarrow> real \<Rightarrow> bool" where
  "shapeInvariant W H cw ch = (0 < cw \<and> cw < W \<and> 0 < ch \<and> ch < H)"




text \<open>
  A perimeter wall runs from the origin along its axis: north and south along x over the
  room width, west and east along y over the room height. For a cutout rectangle
  \<open>(x1, y1, x2, y2)\<close>: whether the cutout lies against the wall, its extent along the wall,
  and whether it sits at the start of the wall.
\<close>

fun wallFull :: "DoorWall \<Rightarrow> real \<Rightarrow> real \<Rightarrow> real" where
  "wallFull north W H = W"
| "wallFull south W H = W"
| "wallFull west W H = H"
| "wallFull east W H = H"
| "wallFull cutout_horizontal W H = 0"
| "wallFull cutout_vertical W H = 0"

fun cutoutAgainst :: "DoorWall \<Rightarrow> real \<times> real \<times> real \<times> real \<Rightarrow> real \<Rightarrow> real \<Rightarrow> bool" where
  "cutoutAgainst north (x1, y1, x2, y2) W H = (y1 = 0)"
| "cutoutAgainst south (x1, y1, x2, y2) W H = (y2 = H)"
| "cutoutAgainst west (x1, y1, x2, y2) W H = (x1 = 0)"
| "cutoutAgainst east (x1, y1, x2, y2) W H = (x2 = W)"
| "cutoutAgainst cutout_horizontal (x1, y1, x2, y2) W H = False"
| "cutoutAgainst cutout_vertical (x1, y1, x2, y2) W H = False"

fun cutoutExtent :: "DoorWall \<Rightarrow> real \<times> real \<times> real \<times> real \<Rightarrow> real" where
  "cutoutExtent north (x1, y1, x2, y2) = x2 - x1"
| "cutoutExtent south (x1, y1, x2, y2) = x2 - x1"
| "cutoutExtent west (x1, y1, x2, y2) = y2 - y1"
| "cutoutExtent east (x1, y1, x2, y2) = y2 - y1"
| "cutoutExtent cutout_horizontal (x1, y1, x2, y2) = x2 - x1"
| "cutoutExtent cutout_vertical (x1, y1, x2, y2) = y2 - y1"

fun cutoutAtStart :: "DoorWall \<Rightarrow> real \<times> real \<times> real \<times> real \<Rightarrow> bool" where
  "cutoutAtStart north (x1, y1, x2, y2) = (x1 = 0)"
| "cutoutAtStart south (x1, y1, x2, y2) = (x1 = 0)"
| "cutoutAtStart west (x1, y1, x2, y2) = (y1 = 0)"
| "cutoutAtStart east (x1, y1, x2, y2) = (y1 = 0)"
| "cutoutAtStart cutout_horizontal (x1, y1, x2, y2) = False"
| "cutoutAtStart cutout_vertical (x1, y1, x2, y2) = False"

text \<open>
  The two edges of the cutout rectangle that face the room: the vertical one at
  \<open>innerX\<close>, the horizontal one at \<open>innerY\<close>.
\<close>

definition innerX :: "real \<times> real \<times> real \<times> real \<Rightarrow> real" where
  "innerX r = (case r of (x1, y1, x2, y2) \<Rightarrow> if x1 = 0 then x2 else x1)"

definition innerY :: "real \<times> real \<times> real \<times> real \<Rightarrow> real" where
  "innerY r = (case r of (x1, y1, x2, y2) \<Rightarrow> if y1 = 0 then y2 else y1)"

text \<open>The centre of the opening that \<open>Door\<close> cuts into the wall.\<close>

definition openingCentre :: "DoorGeom \<Rightarrow> real \<times> real" where
  "openingCentre g = (openingX g + openingW g / 2, openingY g + openingH g / 2)"

text \<open>The plain rectangle room with the same bounding box.\<close>

definition asRectangle :: "Props \<Rightarrow> Props" where
  "asRectangle p = p \<lparr> prop_shape := rectangle, prop_shapeCutoutWidth := None,
     prop_shapeCutoutHeight := None, prop_shapeCutoutCorner := None \<rparr>"

subsection \<open>Concrete rooms\<close>

definition unitA :: Brief where
  "unitA = \<lparr> id_of = ''A'', x_of = 2, y_of = 2, width_of = 4, height_of = 4 \<rparr>"

definition unitB :: Brief where
  "unitB = \<lparr> id_of = ''B'', x_of = 6, y_of = 6, width_of = 4, height_of = 4 \<rparr>"

text \<open>A rectangle room of 10 by 10 with the units A and B.\<close>

definition roomAB :: Props where
  "roomAB = \<lparr> prop_width = 10, prop_height = 10, prop_units = [unitA, unitB],
     prop_blocks = [], prop_shape = rectangle, prop_shapeCutoutWidth = None,
     prop_shapeCutoutHeight = None, prop_shapeCutoutCorner = None, prop_doorWidth = None \<rparr>"

text \<open>An L-shaped room of 10 by 10, cutout 4 by 4 at the bottom right, with the unit A.\<close>

definition roomL :: Props where
  "roomL = \<lparr> prop_width = 10, prop_height = 10, prop_units = [unitA],
     prop_blocks = [], prop_shape = l_shape, prop_shapeCutoutWidth = Some 4,
     prop_shapeCutoutHeight = Some 4, prop_shapeCutoutCorner = Some bottom_right,
     prop_doorWidth = Some 1 \<rparr>"

text \<open>The state while A is dragged from \<open>(2, 2)\<close>, grabbed at its top-left corner.\<close>

definition draggingA :: CanvasState where
  "draggingA = \<lparr> dragging = Some \<lparr> drag_type = drag_unit, drag_id = Some ''A'',
       drag_handle = False, drag_startX = None, drag_startY = None,
       drag_startWidth = None, drag_startHeight = None \<rparr>,
     dragOffset = (0, 0), localDoorWall = None, localDoorPosition = None,
     localSize = None, localPosition = Some (''A'', 2, 2) \<rparr>"

text \<open>A rectangle room of 2 by 2 whose door is 3 wide, and the state of a door drag.\<close>

definition roomWideDoor :: Props where
  "roomWideDoor = \<lparr> prop_width = 2, prop_height = 2, prop_units = [],
     prop_blocks = [], prop_shape = rectangle, prop_shapeCutoutWidth = None,
     prop_shapeCutoutHeight = None, prop_shapeCutoutCorner = None, prop_doorWidth = Some 3 \<rparr>"

definition draggingDoor :: CanvasState where
  "draggingDoor = \<lparr> dragging = Some \<lparr> drag_type = drag_door, drag_id = None,
       drag_handle = False, drag_startX = None, drag_startY = None,
       drag_startWidth = None, drag_startHeight = None \<rparr>,
     dragOffset = (0, 0), localDoorWall = None, localDoorPosition = None,
     localSize = None, localPosition = None \<rparr>"








text \<open>
  A room of 5.5 by 5.5 with a block of 1 by 1 at the origin, and the state while that
  block is resized.
\<close>

definition blockU :: Brief where
  "blockU = \<lparr> id_of = ''U'', x_of = 0, y_of = 0, width_of = 1, height_of = 1 \<rparr>"

definition roomSmall :: Props where
  "roomSmall = \<lparr> prop_width = 5.5, prop_height = 5.5, prop_units = [],
     prop_blocks = [blockU], prop_shape = rectangle, prop_shapeCutoutWidth = None,
     prop_shapeCutoutHeight = None, prop_shapeCutoutCorner = None, prop_doorWidth = None \<rparr>"

definition stateResizingU :: CanvasState where
  "stateResizingU = \<lparr> dragging = Some \<lparr> drag_type = drag_resize_block, drag_id = Some ''U'',
       drag_handle = True, drag_startX = Some 0, drag_startY = Some 0,
       drag_startWidth = Some 1, drag_startHeight = Some 1 \<rparr>,
     dragOffset = (0, 0), localDoorWall = None, localDoorPosition = None,
     localSize = Some (''U'', 1, 1), localPosition = None \<rparr>"

text \<open>
  A room whose sides are the double nearest to 5.7, with a block of 1 by 1 at the double
  nearest to 1.4 from the left wall, and the state while that block is resized.
\<close>

definition blockV :: Brief where
  "blockV = \<lparr> id_of = ''V'', x_of = 3152519739159347 / 2 ^ 51, y_of = 0,
              width_of = 1, height_of = 1 \<rparr>"

definition roomOdd :: Props where
  "roomOdd = \<lparr> prop_width = 6417629469002957 / 2 ^ 50, prop_height = 6417629469002957 / 2 ^ 50,
     prop_units = [], prop_blocks = [blockV], prop_shape = rectangle,
     prop_shapeCutoutWidth = None, prop_shapeCutoutHeight = None,
     prop_shapeCutoutCorner = None, prop_doorWidth = None \<rparr>"

definition stateResizingV :: CanvasState where
  "stateResizingV = \<lparr> dragging = Some \<lparr> drag_type = drag_resize_block, drag_id = Some ''V'',
       drag_handle = True, drag_startX = Some 0, drag_startY = Some 0,
       drag_startWidth = Some 1, drag_startHeight = Some 1 \<rparr>,
     dragOffset = (0, 0), localDoorWall = None, localDoorPosition = None,
     localSize = Some (''V'', 1, 1), localPosition = None \<rparr>"

section \<open>Theorems\<close>

text \<open>The definitions to unfold when a tick is evaluated on a concrete room.\<close>

lemmas canvas_defs = roomWidth_of_def roomHeight_of_def scale_of_def offsetX_of_def
  offsetY_of_def canvasWidth_def canvasHeight_def or_else_def truthy_def

lemmas door_defs = rw_of_def rh_of_def cw_of_def ch_of_def isLShape_of_def localX_of_def
  localY_of_def newWall_of_def wallLengthScaled_of_def wallOffsetScaled_of_def
  effectiveWallLength_of_def closestWall_def wallRunScaled_def isLShape_def normalizePos_def
  clampDoorPos_def

lemmas drag_defs = handleMouseMove_def truthy_id_def dragElement_def currentPosition_def
  clampedPosition_def resolveDrag_def isValidPosition_def isInsideRoom_def
  rectanglesOverlap_def tolerance_def

subsection \<open>The overlap test\<close>




subsection \<open>The rectangle-inside-room test\<close>




subsection \<open>The drag tick\<close>

text \<open>
  C1 at Scenario B of the specification: unit A (4 by 4) is at \<open>(2, 2)\<close>, unit B
  (4 by 4) at \<open>(6, 6)\<close>, and the pointer proposes \<open>(5, 5)\<close> for A. The proposed position
  is not valid and the horizontal slide \<open>(5, 2)\<close> is, so the claim has the tick commit
  \<open>(5, 2)\<close>. The handler runs the vertical test as well, which also passes, and commits
  \<open>(5, 5)\<close>: the position it has just found invalid, and none of the slides.
\<close>

theorem drag_both_slides_commit_the_blocked_move:
  "\<not> isValidPosition roomAB unitA [unitA, unitB] [] 5 5 \<and>
   isValidPosition roomAB unitA [unitA, unitB] [] 5 2 \<and>
   localPosition (handleMouseMove roomAB draggingA (400, 300)) = Some (''A'', 5, 5)"
  by (simp add: drag_defs canvas_defs roomAB_def draggingA_def unitA_def unitB_def)

text \<open>
  C2 in the L-shaped room of 10 by 10 with the cutout 4 by 4 at the bottom right: unit A
  (4 by 4) is dragged from \<open>(2, 2)\<close> towards \<open>(6, 6)\<close>. Both single-axis slides are valid,
  the handler takes both, and the committed rectangle \<open>(6, 6, 4, 4)\<close> is the cutout
  itself: the handler's own validity test rejects it.
\<close>

theorem drag_commits_inside_the_cutout:
  "localPosition (handleMouseMove roomL draggingA (451, 351)) = Some (''A'', 6, 6) \<and>
   cutoutRect bottom_right 10 10 4 4 = (6, 6, 6 + 4, 6 + 4) \<and>
   \<not> isValidPosition roomL unitA [unitA] [] 6 6"
  by (simp add: drag_defs canvas_defs roomL_def draggingA_def unitA_def)

text \<open>
  The resolver in general: unless the proposed position is invalid and both slides are
  valid, it commits the first valid candidate in the order proposed, horizontal slide,
  vertical slide, current; in the remaining case it commits the proposed position.
\<close>

lemma resolveDrag_one_slide:
  assumes "\<not> (\<not> valid px py \<and> valid px cy \<and> valid cx py)"
  shows "resolveDrag valid (cx, cy) (px, py) =
     (if valid px py then (px, py)
      else if valid px cy then (px, cy)
      else if valid cx py then (cx, py)
      else (cx, cy))"
  using assms by (auto simp: resolveDrag_def Let_def)

lemma resolveDrag_both_slides:
  assumes "\<not> valid px py" "valid px cy" "valid cx py"
  shows "resolveDrag valid (cx, cy) (px, py) = (px, py)"
  using assms by (simp add: resolveDrag_def Let_def)

subsection \<open>The door clamp\<close>

text \<open>
  C3 at a rectangle room of 2 by 2 whose door is 3 wide, the door dragged to the middle
  of the north wall: the door is at least as wide as the wall, so the claim has the
  placement rejected, and the handler's own comment has the clamp keep the door fully
  within the wall. The handler rejects nothing: it stores (and reports) the position
  0.77 on the north wall, and the opening that \<open>Door\<close> draws from it ends at 775.2 canvas
  units on a wall that ends at 510.
\<close>

theorem doorDrag_wide_door_overhangs:
  "effectiveWallLength_of roomWideDoor north \<le> or_else (prop_doorWidth roomWideDoor) 1 \<and>
   handleMouseMove roomWideDoor draggingDoor (400, 45) =
     draggingDoor \<lparr> localDoorWall := Some north, localDoorPosition := Some (Finite 0.77) \<rparr> \<and>
   scale_of roomWideDoor = 255 \<and> rw_of roomWideDoor = 510 \<and>
   openingX (Door north 0.77 3 2 2 255 rectangle None None None)
     + openingW (Door north 0.77 3 2 2 255 rectangle None None None) = 775.2"
  by (simp add: handleMouseMove_def doorDrag_def door_defs canvas_defs roomWideDoor_def
      draggingDoor_def Door_def Let_def)

lemma clampDoorPos_wide:
  assumes "0 < L" "L \<le> dw"
  shows "clampDoorPos dw L pos = dw / L / 2 + 0.02"
proof -
  define r where "r = dw / L"
  have "1 \<le> r"
    using assms by (simp add: r_def)
  then have "max (r / 2 + 0.02) (min (1 - r / 2 - 0.02) pos) = r / 2 + 0.02"
    by (simp add: max_def min_def)
  then show ?thesis
    by (simp add: clampDoorPos_def r_def)
qed

text \<open>
  In general: on a wall of positive effective length \<open>L\<close>, a door of width \<open>dw \<ge> L\<close> is
  put at the lower clamp bound \<open>dw / L / 2 + 0.02\<close> whatever the pointer, a position of at
  least 0.52 at which the door reaches beyond the end of the wall.
\<close>

lemma doorDrag_wide_door:
  assumes "wall = fst (doorDrag p svgP)"
    and "L = effectiveWallLength_of p wall"
    and "dw = or_else (prop_doorWidth p) 1"
    and "0 < L" and "L \<le> dw"
  shows "snd (doorDrag p svgP) = Finite (dw / L / 2 + 0.02) \<and> 0.52 \<le> dw / L / 2 + 0.02 \<and>
         L < (dw / L / 2 + 0.02) * L + dw / 2"
proof -
  have w: "wall = newWall_of p svgP"
    using assms(1) by (simp add: doorDrag_def Let_def)
  have nz: "scale_of p \<noteq> 0" "wallLengthScaled_of p wall \<noteq> 0"
    using assms(2,4) by (auto simp: effectiveWallLength_of_def)
  have "snd (doorDrag p svgP) = Finite (clampDoorPos dw L
           (normalizePos wall (localX_of p svgP) (localY_of p svgP)
              (wallLengthScaled_of p wall) (wallOffsetScaled_of p wall)))"
    using nz assms(2,3) unfolding w by (simp add: doorDrag_def Let_def)
  moreover have "1 \<le> dw / L"
    using assms(4,5) by simp
  moreover have "L < (dw / L / 2 + 0.02) * L + dw / 2"
  proof -
    have "(dw / L / 2 + 0.02) * L = dw / 2 + 0.02 * L"
      using assms(4) by (simp add: field_simps)
    then show ?thesis
      using assms(4,5) by simp
  qed
  ultimately show ?thesis
    using clampDoorPos_wide [OF assms(4,5)] by simp
qed

lemma doorDrag_wide_door_example:
  "snd (doorDrag roomWideDoor (400, 45)) = Finite 0.77 \<and> (2::real) < 0.77 * 2 + 3 / 2"
proof -
  have w: "north = fst (doorDrag roomWideDoor (400, 45))"
    by (simp add: doorDrag_def door_defs canvas_defs roomWideDoor_def)
  have l: "2 = effectiveWallLength_of roomWideDoor north"
    by (simp add: door_defs canvas_defs roomWideDoor_def)
  have d: "3 = or_else (prop_doorWidth roomWideDoor) 1"
    by (simp add: or_else_def roomWideDoor_def)
  show ?thesis
    using doorDrag_wide_door [OF w l d] by simp
qed

subsection \<open>The L-shape editor\<close>

text \<open>
  C5, as the claim states it, fails: with both legs 5 wide the editor is not stopped; it
  hands its parent a room of 5 by 6 whose cutout is 0 by 3, which breaks \<open>0 < cw\<close>.
\<close>

theorem legsToBackend_zero_cutout_counterexample:
  "onChangeData \<lparr> cfg_orientation = bottom_right, cfg_verticalLegWidth = 5,
      cfg_verticalLegHeight = 3, cfg_horizontalLegWidth = 5, cfg_horizontalLegHeight = 3 \<rparr>
     = (5, 6, bottom_right, 0, 3) \<and> \<not> shapeInvariant 5 6 0 3"
  by (simp add: onChangeData_def legsToBackend_def shapeInvariant_def)

text \<open>
  C5 (amended): \<open>legsToBackend\<close> rejects nothing; it always returns a shape, with the
  cutout clamped at 0 from below. For positive leg dimensions the cutout satisfies
  \<open>0 \<le> cw < W\<close> and \<open>0 < ch < H\<close>, and the shape invariant holds exactly when the vertical
  leg is narrower than the horizontal one; otherwise the cutout width is 0, which the
  canvas geometry does not treat as an L-shape.
\<close>

theorem legsToBackend_total:
  assumes "0 < cfg_verticalLegWidth c" "0 < cfg_verticalLegHeight c"
    "0 < cfg_horizontalLegWidth c" "0 < cfg_horizontalLegHeight c"
  shows "0 \<le> be_cutoutWidth (legsToBackend c) \<and>
     be_cutoutWidth (legsToBackend c) < be_width (legsToBackend c) \<and>
     0 < be_cutoutHeight (legsToBackend c) \<and>
     be_cutoutHeight (legsToBackend c) < be_height (legsToBackend c) \<and>
     (shapeInvariant (be_width (legsToBackend c)) (be_height (legsToBackend c))
        (be_cutoutWidth (legsToBackend c)) (be_cutoutHeight (legsToBackend c))
      \<longleftrightarrow> cfg_verticalLegWidth c < cfg_horizontalLegWidth c) \<and>
     (cfg_horizontalLegWidth c \<le> cfg_verticalLegWidth c \<longrightarrow>
        be_cutoutWidth (legsToBackend c) = 0 \<and>
        \<not> isLShape l_shape (Some (be_cutoutWidth (legsToBackend c)))
            (Some (be_cutoutHeight (legsToBackend c))) (Some (cfg_orientation c)))"
  using assms
  by (auto simp: legsToBackend_def shapeInvariant_def isLShape_def truthy_def max_def Let_def)

theorem legsToBackend_total_witness:
  "be_cutoutWidth (legsToBackend \<lparr> cfg_orientation = bottom_right, cfg_verticalLegWidth = 6,
      cfg_verticalLegHeight = 4, cfg_horizontalLegWidth = 10, cfg_horizontalLegHeight = 6 \<rparr>) < 10 \<and>
   shapeInvariant 10 10 4 4 \<and>
   be_cutoutWidth (legsToBackend \<lparr> cfg_orientation = bottom_right, cfg_verticalLegWidth = 5,
      cfg_verticalLegHeight = 3, cfg_horizontalLegWidth = 5, cfg_horizontalLegHeight = 3 \<rparr>) = 0"
proof -
  have a: "legsToBackend \<lparr> cfg_orientation = bottom_right, cfg_verticalLegWidth = 6,
      cfg_verticalLegHeight = 4, cfg_horizontalLegWidth = 10, cfg_horizontalLegHeight = 6 \<rparr>
    = \<lparr> be_width = 10, be_height = 10, be_cutoutWidth = 4, be_cutoutHeight = 4 \<rparr>"
    by (simp add: legsToBackend_def)
  show ?thesis
    using legsToBackend_total [of "\<lparr> cfg_orientation = bottom_right, cfg_verticalLegWidth = 6,
      cfg_verticalLegHeight = 4, cfg_horizontalLegWidth = 10, cfg_horizontalLegHeight = 6 \<rparr>"]
      legsToBackend_total [of "\<lparr> cfg_orientation = bottom_right, cfg_verticalLegWidth = 5,
      cfg_verticalLegHeight = 3, cfg_horizontalLegWidth = 5, cfg_horizontalLegHeight = 3 \<rparr>"]
    by (simp add: a)
qed

subsection \<open>The wall table\<close>

lemma Door_wallRun:
  assumes "cw \<noteq> 0" "ch \<noteq> 0" "wall \<in> {north, south, west, east}"
  shows "(wallLength (Door wall position doorWidth W H scale l_shape (Some cw) (Some ch) (Some corner)),
          wallOffset (Door wall position doorWidth W H scale l_shape (Some cw) (Some ch) (Some corner)))
     = wallRunScaled wall True (W * scale) (H * scale) (cw * scale) (ch * scale) (Some corner)"
  using assms
  by (cases wall) (simp_all add: Door_def wallRunScaled_def isLShape_def truthy_def or_else_def Let_def)

lemma wallRunScaled_table:
  assumes "shapeInvariant W H cw ch" "wall \<in> {north, south, west, east}"
  shows "wallRunScaled wall True (W * scale) (H * scale) (cw * scale) (ch * scale) (Some corner)
     = ((wallFull wall W H -
          (if cutoutAgainst wall (cutoutRect corner W H cw ch) W H
           then cutoutExtent wall (cutoutRect corner W H cw ch) else 0)) * scale,
        (if cutoutAgainst wall (cutoutRect corner W H cw ch) W H \<and>
            cutoutAtStart wall (cutoutRect corner W H cw ch)
         then cutoutExtent wall (cutoutRect corner W H cw ch) else 0) * scale)"
  using assms
  by (cases corner; cases wall)
     (simp_all add: wallRunScaled_def shapeInvariant_def left_diff_distrib)

lemma wallRunScaled_cutout:
  assumes "shapeInvariant W H cw ch"
  shows "wallRunScaled cutout_vertical True (W * scale) (H * scale) (cw * scale) (ch * scale) (Some corner)
     = (cutoutExtent cutout_vertical (cutoutRect corner W H cw ch) * scale,
        fst (snd (cutoutRect corner W H cw ch)) * scale)"
   and "wallRunScaled cutout_horizontal True (W * scale) (H * scale) (cw * scale) (ch * scale) (Some corner)
     = (cutoutExtent cutout_horizontal (cutoutRect corner W H cw ch) * scale,
        fst (cutoutRect corner W H cw ch) * scale)"
  using assms
  by (cases corner; simp add: wallRunScaled_def shapeInvariant_def left_diff_distrib)+

lemma Door_cutout_vertical:
  assumes "shapeInvariant W H cw ch"
  shows "openingCentre (Door cutout_vertical position doorWidth W H scale l_shape (Some cw) (Some ch) (Some corner))
     = (innerX (cutoutRect corner W H cw ch) * scale,
        fst (snd (cutoutRect corner W H cw ch)) * scale + position * (ch * scale))"
  using assms
  by (cases corner)
     (simp_all add: Door_def isLShape_def truthy_def or_else_def Let_def openingCentre_def
        wallThickness_def innerX_def shapeInvariant_def left_diff_distrib)

lemma Door_cutout_horizontal:
  assumes "shapeInvariant W H cw ch"
  shows "openingCentre (Door cutout_horizontal position doorWidth W H scale l_shape (Some cw) (Some ch) (Some corner))
     = (fst (cutoutRect corner W H cw ch) * scale + position * (cw * scale),
        innerY (cutoutRect corner W H cw ch) * scale)"
  using assms
  by (cases corner)
     (simp_all add: Door_def isLShape_def truthy_def or_else_def Let_def openingCentre_def
        wallThickness_def innerY_def shapeInvariant_def left_diff_distrib)


lemma cutoutExtent_cutoutRect:
  "cutoutExtent cutout_vertical (cutoutRect corner W H cw ch) = ch"
  "cutoutExtent cutout_horizontal (cutoutRect corner W H cw ch) = cw"
  by (cases corner; simp)+

text \<open>
  C6: in an L-shaped room (cutout \<open>cw\<close> by \<open>ch\<close> with \<open>0 < cw < W\<close>, \<open>0 < ch < H\<close>), for
  every cutout corner, the wall table of \<open>Door\<close> and the one of \<open>handleMouseMove\<close> agree,
  and each perimeter wall that the cutout lies against has its length reduced by the
  cutout's extent along it, with an offset equal to that extent exactly when the cutout
  sits at the wall's start; the cutout walls run along the two inner edges of the cutout
  rectangle. For the room of 10 by 10 with the cutout 4 by 4 at the bottom right, the
  south wall has length 6 and offset 0 and the vertical cutout wall lies at \<open>x = 6\<close>
  from \<open>y = 6\<close> to \<open>y = 10\<close>.
\<close>

theorem wall_table:
  assumes inv: "shapeInvariant W H cw ch"
  shows "let r = cutoutRect corner W H cw ch;
             g = (\<lambda>wall position.
                    Door wall position doorWidth W H scale l_shape (Some cw) (Some ch) (Some corner));
             run = (\<lambda>wall. wallRunScaled wall True (W * scale) (H * scale) (cw * scale)
                             (ch * scale) (Some corner))
         in (wall \<in> {north, south, west, east} \<longrightarrow>
               wallLength (g wall position) =
                 (wallFull wall W H -
                    (if cutoutAgainst wall r W H then cutoutExtent wall r else 0)) * scale \<and>
               wallOffset (g wall position) =
                 (if cutoutAgainst wall r W H \<and> cutoutAtStart wall r
                  then cutoutExtent wall r else 0) * scale \<and>
               run wall = (wallLength (g wall position), wallOffset (g wall position))) \<and>
            openingCentre (g cutout_vertical position) =
              (innerX r * scale, (fst (snd r) + position * cutoutExtent cutout_vertical r) * scale) \<and>
            run cutout_vertical = (cutoutExtent cutout_vertical r * scale, fst (snd r) * scale) \<and>
            openingCentre (g cutout_horizontal position) =
              ((fst r + position * cutoutExtent cutout_horizontal r) * scale, innerY r * scale) \<and>
            run cutout_horizontal = (cutoutExtent cutout_horizontal r * scale, fst r * scale)"
proof -
  have nz: "cw \<noteq> 0" "ch \<noteq> 0"
    using inv by (auto simp: shapeInvariant_def)
  have pr: "(wallLength (Door wall position doorWidth W H scale l_shape (Some cw) (Some ch) (Some corner)),
       wallOffset (Door wall position doorWidth W H scale l_shape (Some cw) (Some ch) (Some corner)))
      = ((wallFull wall W H -
          (if cutoutAgainst wall (cutoutRect corner W H cw ch) W H
           then cutoutExtent wall (cutoutRect corner W H cw ch) else 0)) * scale,
        (if cutoutAgainst wall (cutoutRect corner W H cw ch) W H \<and>
            cutoutAtStart wall (cutoutRect corner W H cw ch)
         then cutoutExtent wall (cutoutRect corner W H cw ch) else 0) * scale)"
    if w: "wall \<in> {north, south, west, east}"
    using trans [OF Door_wallRun [OF nz w] wallRunScaled_table [OF inv w]] .
  have p1: "wallLength (Door wall position doorWidth W H scale l_shape (Some cw) (Some ch) (Some corner))
      = (wallFull wall W H -
          (if cutoutAgainst wall (cutoutRect corner W H cw ch) W H
           then cutoutExtent wall (cutoutRect corner W H cw ch) else 0)) * scale"
    if w: "wall \<in> {north, south, west, east}"
    using arg_cong [OF pr [OF w], of fst] by (simp only: fst_conv)
  have p2: "wallOffset (Door wall position doorWidth W H scale l_shape (Some cw) (Some ch) (Some corner))
      = (if cutoutAgainst wall (cutoutRect corner W H cw ch) W H \<and>
            cutoutAtStart wall (cutoutRect corner W H cw ch)
         then cutoutExtent wall (cutoutRect corner W H cw ch) else 0) * scale"
    if w: "wall \<in> {north, south, west, east}"
    using arg_cong [OF pr [OF w], of snd] by (simp only: snd_conv)
  have run: "wallRunScaled wall True (W * scale) (H * scale) (cw * scale) (ch * scale) (Some corner) =
      (wallLength (Door wall position doorWidth W H scale l_shape (Some cw) (Some ch) (Some corner)),
       wallOffset (Door wall position doorWidth W H scale l_shape (Some cw) (Some ch) (Some corner)))"
    if w: "wall \<in> {north, south, west, east}"
    using Door_wallRun [OF nz w, symmetric] .
  have v: "openingCentre (Door cutout_vertical position doorWidth W H scale l_shape (Some cw) (Some ch) (Some corner))
     = (innerX (cutoutRect corner W H cw ch) * scale,
        (fst (snd (cutoutRect corner W H cw ch)) +
           position * cutoutExtent cutout_vertical (cutoutRect corner W H cw ch)) * scale)"
    by (simp add: Door_cutout_vertical [OF inv] cutoutExtent_cutoutRect distrib_right)
  have h: "openingCentre (Door cutout_horizontal position doorWidth W H scale l_shape (Some cw) (Some ch) (Some corner))
     = ((fst (cutoutRect corner W H cw ch) +
           position * cutoutExtent cutout_horizontal (cutoutRect corner W H cw ch)) * scale,
        innerY (cutoutRect corner W H cw ch) * scale)"
    by (simp add: Door_cutout_horizontal [OF inv] cutoutExtent_cutoutRect distrib_right)
  show ?thesis
    unfolding Let_def
    using p1 p2 run v h wallRunScaled_cutout [OF inv] by blast
qed

theorem wall_table_witness:
  "wallLength (Door south 0 1 10 10 1 l_shape (Some 4) (Some 4) (Some bottom_right)) = 6 \<and>
   wallOffset (Door south 0 1 10 10 1 l_shape (Some 4) (Some 4) (Some bottom_right)) = 0 \<and>
   wallRunScaled south True 10 10 4 4 (Some bottom_right) = (6, 0) \<and>
   openingCentre (Door cutout_vertical 0 1 10 10 1 l_shape (Some 4) (Some 4) (Some bottom_right)) = (6, 6) \<and>
   openingCentre (Door cutout_vertical 1 1 10 10 1 l_shape (Some 4) (Some 4) (Some bottom_right)) = (6, 10) \<and>
   wallRunScaled cutout_vertical True 10 10 4 4 (Some bottom_right) = (4, 6) \<and>
   effectiveWallLength_of roomL south = 6"
proof -
  have i: "shapeInvariant 10 10 4 4"
    by (simp add: shapeInvariant_def)
  have e: "effectiveWallLength_of roomL south = 6"
    by (simp add: door_defs canvas_defs roomL_def)
  show ?thesis
    using wall_table [OF i, where corner = bottom_right and doorWidth = 1 and scale = 1
          and wall = south and position = 0]
      wall_table [OF i, where corner = bottom_right and doorWidth = 1 and scale = 1
          and wall = south and position = 1]
    by (simp add: Let_def innerX_def e)
qed

subsection \<open>Rounding to doubles\<close>

text \<open>
  What is needed of \<open>fl\<close>: its value on a number whose binade is known, that it leaves the
  doubles with an integer or dyadic value alone, and that it never rounds below a double
  under its argument.
\<close>

lemma rhe_of_int [simp]: "rhe (of_int n) = n"
  by (simp add: rhe_def)


lemma ulp_exp_eq:
  assumes "2 powr of_int e \<le> \<bar>x\<bar>" "\<bar>x\<bar> < 2 powr (of_int e + 1)"
  shows "ulp_exp x = max e (- 1022) - 52"
proof -
  have "0 < \<bar>x\<bar>"
    using assms(1) powr_gt_zero [of 2 "of_int e"] by linarith
  then have "\<lfloor>log 2 \<bar>x\<bar>\<rfloor> = e"
    using assms by (subst floor_log_eq_powr_iff) auto
  then show ?thesis by (simp add: ulp_exp_def)
qed

lemma fl_eval:
  assumes "2 powr of_int e \<le> \<bar>x\<bar>" "\<bar>x\<bar> < 2 powr (of_int e + 1)" "- 1022 \<le> e"
  shows "fl x = of_int (rhe (x / 2 powr of_int (e - 52))) * 2 powr of_int (e - 52)"
proof -
  have "x \<noteq> 0"
    using assms(1) powr_gt_zero [of 2 "of_int e"] by auto
  moreover have "ulp_exp x = e - 52" using ulp_exp_eq [OF assms(1,2)] assms(3) by simp
  ultimately show ?thesis by (simp add: fl_def)
qed


lemma fl_dyadic:
  assumes "\<bar>m\<bar> < 2 ^ 53" "k \<le> 1074"
  shows "fl (of_int m / 2 ^ k) = of_int m / 2 ^ k"
proof (cases "m = 0")
  case True
  then show ?thesis by (simp add: fl_def)
next
  case False
  define x :: real where "x = of_int m / 2 ^ k"
  have x0: "x \<noteq> 0" using False by (simp add: x_def)
  have ax: "\<bar>x\<bar> = of_int \<bar>m\<bar> / 2 ^ k" by (simp add: x_def)
  have "of_int \<bar>m\<bar> < (2::real) ^ 53"
    using assms(1) by (metis of_int_less_numeral_power_cancel_iff)
  then have "\<bar>x\<bar> < 2 ^ 53 / 2 ^ k"
    by (simp add: ax divide_strict_right_mono)
  also have "\<dots> = 2 powr (53 - real k)"
    by (simp add: powr_diff powr_realpow)
  finally have "log 2 \<bar>x\<bar> < 53 - real k"
    using x0 by (simp add: log_less_iff)
  then have "\<lfloor>log 2 \<bar>x\<bar>\<rfloor> < 53 - int k"
    by (simp add: floor_less_iff)
  then have ue: "ulp_exp x \<le> - int k"
    using assms(2) by (simp add: ulp_exp_def)
  define j where "j = nat (- int k - ulp_exp x)"
  have j: "ulp_exp x = - int k - int j"
    using ue by (simp add: j_def)
  have u: "(2::real) powr of_int (ulp_exp x) = 1 / (2 ^ k * 2 ^ j)"
    by (simp add: j powr_diff powr_minus_divide powr_realpow field_simps)
  have "x / 2 powr of_int (ulp_exp x) = of_int (m * 2 ^ j)"
    unfolding u by (simp add: x_def)
  then have "rhe (x / 2 powr of_int (ulp_exp x)) = m * 2 ^ j"
    by (simp only: rhe_of_int)
  then have "fl x = of_int (m * 2 ^ j) * (1 / (2 ^ k * 2 ^ j))"
    using x0 by (simp add: fl_def u)
  then show ?thesis
    by (simp add: x_def)
qed

lemma fl_of_int:
  assumes "\<bar>m\<bar> < 2 ^ 53"
  shows "fl (of_int m) = of_int m"
  using fl_dyadic [OF assms, of 0] by simp



lemma fl_zero: "fl 0 = 0"
  by (simp add: fl_def)

lemmas fl_num = rhe_def powr_minus_divide powr_neg_numeral

subsection \<open>The resize tick\<close>

lemma fl_values:
  "fl 1 = 1" "fl 2 = 2" "fl 3 = 3" "fl 10 = 10" "fl 12 = 12" "fl 20 = 20" "fl 25 = 25"
  "fl 30 = 30" "fl 51 = 51" "fl 60 = 60" "fl 80 = 80" "fl 120 = 120" "fl 510 = 510"
  "fl (51 / 2) = 51 / 2" "fl (5 / 2) = 5 / 2" "fl 5 = 5"
  using fl_of_int [of 1] fl_of_int [of 2] fl_of_int [of 3] fl_of_int [of 10] fl_of_int [of 12]
    fl_of_int [of 20] fl_of_int [of 25] fl_of_int [of 30] fl_of_int [of 51] fl_of_int [of 60]
    fl_of_int [of 80] fl_of_int [of 120] fl_of_int [of 510] fl_dyadic [of 51 1]
    fl_dyadic [of 5 1] fl_of_int [of 5]
  by simp_all

lemma fl_085: "fl (17 / 20) = 7656119366529843 / 2 ^ 53"
  by (subst fl_eval [where e = "-1"]) (simp_all add: rhe_def powr_minus_divide powr_neg_numeral)



lemma constrainResize_eq:
  "constrainResize p st element same other new =
     (let capped = (min (fst new) (fl (roomWidth_of p - x_of element)),
                    min (snd new) (fl (roomHeight_of p - y_of element)))
      in if isInsideRoom (x_of element) (y_of element) (fst capped) (snd capped)
              (roomWidth_of p) (roomHeight_of p) (prop_shape p) (prop_shapeCutoutWidth p)
              (prop_shapeCutoutHeight p) (prop_shapeCutoutCorner p)
            \<and> \<not> collidesAt element same other (fst capped) (snd capped)
         then capped else previousSize st element)"
  by (simp add: constrainResize_def Let_def split: prod.splits)


lemma previousSize_eq:
  "previousSize st element =
     (case localSize st of
        None \<Rightarrow> (width_of element, height_of element)
      | Some (i, lw, lh) \<Rightarrow>
          (if lw \<noteq> 0 then lw else width_of element,
           if lh \<noteq> 0 then lh else height_of element))"
  by (simp add: previousSize_def or_else_def split: option.splits)

lemma proposedSize_eq:
  "proposedSize p d svgP =
     (fl (js_round (fl (max 0.5 (fl (or_else (drag_startWidth d) 1 +
            fl (fl (fst svgP - or_else (drag_startX d) 0) / scale_fl_of p))) * 10)) / 10),
      fl (js_round (fl (max 0.5 (fl (or_else (drag_startHeight d) 1 +
            fl (fl (snd svgP - or_else (drag_startY d) 0) / scale_fl_of p))) * 10)) / 10))"
  by (simp add: proposedSize_def Let_def)



text \<open>
  A resize never leaves a valid layout: if the previous size is valid, so is the size
  the tick commits.
\<close>

lemma constrainResize_valid:
  assumes "previousSize st element = (pw, ph)"
    and "isInsideRoom (x_of element) (y_of element) pw ph
              (roomWidth_of p) (roomHeight_of p) (prop_shape p) (prop_shapeCutoutWidth p)
              (prop_shapeCutoutHeight p) (prop_shapeCutoutCorner p)"
    and "\<not> collidesAt element same other pw ph"
    and "constrainResize p st element same other new = (w, h)"
  shows "isInsideRoom (x_of element) (y_of element) w h
              (roomWidth_of p) (roomHeight_of p) (prop_shape p) (prop_shapeCutoutWidth p)
              (prop_shapeCutoutHeight p) (prop_shapeCutoutCorner p) \<and>
         \<not> collidesAt element same other w h"
  using assms by (auto simp: constrainResize_eq Let_def split: if_splits)




text \<open>
  The rounding of the doubles decides the outcome in the next two ticks. In the first,
  the exact sum \<open>1 + 51 / scale\<close> is 1.55 and would round to 1.6; the doubles hold
  \<open>1.5499999999999998\<close> and the tick commits 1.5. In the second, \<open>roomWidth - x\<close> comes out
  as \<open>4.300000000000001\<close>, the capped rectangle reaches beyond the room, the inside test
  rejects it and the previous size 1 by 1 is kept.
\<close>

lemma scale_fl_roomSmall: "scale_fl_of roomSmall = 6525101732837935 / 2 ^ 46"
proof -
  define sA :: real where "sA = 5117726849284655 / 2 ^ 45"
  define sB :: real where "sB = 3838295136963491 / 2 ^ 45"
  define c :: real where "c = 7656119366529843 / 2 ^ 53"
  define sS :: real where "sS = 6525101732837935 / 2 ^ 46"
  have a: "fl (1600 / 11) = sA"
    unfolding sA_def by (subst fl_eval [where e = 7]) (simp_all add: fl_num)
  have b: "fl (1200 / 11) = sB"
    unfolding sB_def by (subst fl_eval [where e = 6]) (simp_all add: fl_num)
  have m: "min sA sB = sB"
    by (simp add: sA_def sB_def)
  have c85: "fl (17 / 20) = c"
    unfolding c_def by (rule fl_085)
  have p: "fl (sB * c) = sS"
    unfolding sB_def c_def sS_def by (subst fl_eval [where e = 6]) (simp_all add: fl_num)
  have "scale_fl_of roomSmall = sS"
    by (simp add: scale_fl_of_def canvas_defs roomSmall_def a b m c85 p)
  then show ?thesis
    by (simp add: sS_def)
qed

lemma resize_rounds_as_doubles:
  "localSize (handleMouseMove roomSmall stateResizingU (51, 0)) = Some (''U'', 1.5, 1) \<and>
   js_round ((1 + 51 / scale_of roomSmall) * 10) / 10 = 1.6"
proof -
  define sS :: real where "sS = 6525101732837935 / 2 ^ 46"
  define dX :: real where "dX = 4953959590107545 / 2 ^ 53"
  define sm :: real where "sm = 1745144855606067 / 2 ^ 50"
  define t10 :: real where "t10 = 8725724278030335 / 2 ^ 49"
  have sc: "scale_fl_of roomSmall = sS"
    by (simp add: scale_fl_roomSmall sS_def)
  have d: "fl (51 / sS) = dX"
    unfolding sS_def dX_def by (subst fl_eval [where e = "-1"]) (simp_all add: fl_num)
  have s: "fl (1 + dX) = sm"
    unfolding dX_def sm_def by (subst fl_eval [where e = 0]) (simp_all add: fl_num)
  have mx: "max (1 / 2) sm = sm"
    by (simp add: sm_def)
  have t: "fl (sm * 10) = t10"
    unfolding sm_def t10_def by (subst fl_eval [where e = 3]) (simp_all add: fl_num)
  have r: "\<lfloor>t10 + 1 / 2\<rfloor> = 15"
    by (simp add: t10_def)
  have n: "fl (3 / 2) = 3 / 2" "fl (11 / 2) = 11 / 2"
    using fl_dyadic [of 3 1] fl_dyadic [of 11 1] by simp_all
  have new: "proposedSize roomSmall (the (dragging stateResizingU)) (51, 0) = (3 / 2, 1)"
    by (simp add: proposedSize_eq sc stateResizingU_def or_else_def
        fl_values fl_zero js_round_def d s mx t r n)
  have "localSize (handleMouseMove roomSmall stateResizingU (51, 0)) = Some (''U'', 3 / 2, 1)"
    using new
    by (simp add: handleMouseMove_def truthy_id_def resizeElement_def stateResizingU_def
        roomSmall_def blockU_def constrainResize_eq collidesAt_def isInsideRoom_def
        roomWidth_of_def roomHeight_of_def or_else_def n)
  moreover have "js_round ((1 + 51 / scale_of roomSmall) * 10) / 10 = 1.6"
    by (simp add: js_round_def canvas_defs roomSmall_def)
  ultimately show ?thesis
    by simp
qed

lemma scale_fl_roomOdd: "scale_fl_of roomOdd = 1574037698710905 / 2 ^ 44"
proof -
  define W :: real where "W = 6417629469002957 / 2 ^ 50"
  define sA :: real where "sA = 4938157486151859 / 2 ^ 45"
  define sB :: real where "sB = 7407236229227789 / 2 ^ 46"
  define c :: real where "c = 7656119366529843 / 2 ^ 53"
  define sS :: real where "sS = 1574037698710905 / 2 ^ 44"
  have w: "roomWidth_of roomOdd = W" "roomHeight_of roomOdd = W"
    by (simp_all add: roomWidth_of_def roomHeight_of_def or_else_def roomOdd_def W_def)
  have a: "fl (800 / W) = sA"
    unfolding sA_def W_def by (subst fl_eval [where e = 7]) (simp_all add: fl_num)
  have b: "fl (600 / W) = sB"
    unfolding sB_def W_def by (subst fl_eval [where e = 6]) (simp_all add: fl_num)
  have m: "min sA sB = sB"
    by (simp add: sA_def sB_def)
  have c85: "fl (17 / 20) = c"
    unfolding c_def by (rule fl_085)
  have p: "fl (sB * c) = sS"
    unfolding sB_def c_def sS_def by (subst fl_eval [where e = 6]) (simp_all add: fl_num)
  have "scale_fl_of roomOdd = sS"
    by (simp add: scale_fl_of_def canvasWidth_def canvasHeight_def w a b m c85 p)
  then show ?thesis
    by (simp add: sS_def)
qed

lemma resize_cap_overshoots_in_doubles:
  "fl (roomWidth_of roomOdd - x_of blockV) = 1210342399855821 / 2 ^ 48 \<and>
   roomWidth_of roomOdd < x_of blockV + fl (roomWidth_of roomOdd - x_of blockV) \<and>
   localSize (handleMouseMove roomOdd stateResizingV (1574037698710905 / 2 ^ 41, 0))
     = Some (''V'', 1, 1)"
proof -
  define W :: real where "W = 6417629469002957 / 2 ^ 50"
  define x :: real where "x = 3152519739159347 / 2 ^ 51"
  define sS :: real where "sS = 1574037698710905 / 2 ^ 44"
  define px :: real where "px = 1574037698710905 / 2 ^ 41"
  define cap :: real where "cap = 1210342399855821 / 2 ^ 48"
  have w: "roomWidth_of roomOdd = W" "roomHeight_of roomOdd = W"
    by (simp_all add: roomWidth_of_def roomHeight_of_def or_else_def roomOdd_def W_def)
  have xv: "x_of blockV = x" "y_of blockV = 0"
    by (simp_all add: blockV_def x_def)
  have sc: "scale_fl_of roomOdd = sS"
    by (simp add: scale_fl_roomOdd sS_def)
  have p: "fl px = px"
    unfolding px_def using fl_dyadic [of 1574037698710905 41] by simp
  have q: "px / sS = 8"
    by (simp add: px_def sS_def)
  have f: "fl 8 = 8" "fl 9 = 9" "fl 90 = 90"
    using fl_of_int [of 8] fl_of_int [of 9] fl_of_int [of 90] by simp_all
  have c: "fl (W - x) = cap"
    unfolding W_def x_def cap_def by (subst fl_eval [where e = 2]) (simp_all add: fl_num)
  have cw: "fl W = W"
    unfolding W_def using fl_dyadic [of 6417629469002957 50] by simp
  have over: "W < x + cap" "min 9 cap = cap" "min 1 W = 1"
    by (simp_all add: W_def x_def cap_def)
  have new: "proposedSize roomOdd (the (dragging stateResizingV)) (px, 0) = (9, 1)"
    by (simp add: proposedSize_eq sc stateResizingV_def or_else_def
        fl_values fl_zero js_round_def p q f)
  have "localSize (handleMouseMove roomOdd stateResizingV (px, 0)) = Some (''V'', 1, 1)"
    using new over
    by (simp add: handleMouseMove_def truthy_id_def resizeElement_def stateResizingV_def
        roomOdd_def[THEN arg_cong[of _ _ prop_blocks]] roomOdd_def[THEN arg_cong[of _ _ prop_units]]
        blockV_def[THEN arg_cong[of _ _ id_of]] constrainResize_eq w xv c cw
        isInsideRoom_def previousSize_eq)
  then show ?thesis
    using c over(1) by (simp add: w xv px_def cap_def)
qed

subsection \<open>The door round trip\<close>

lemma Door_centre_along:
  assumes "wall \<in> {cutout_horizontal, cutout_vertical} \<longrightarrow> isLShape shape cwo cho cco"
  shows "alongWall wall
           (fst (openingCentre (Door wall position dw W H sc shape cwo cho cco)))
           (snd (openingCentre (Door wall position dw W H sc shape cwo cho cco)))
     = snd (wallRunScaled wall (isLShape shape cwo cho cco) (W * sc) (H * sc)
              (or_else cwo 0 * sc) (or_else cho 0 * sc) cco)
       + position * fst (wallRunScaled wall (isLShape shape cwo cho cco) (W * sc) (H * sc)
              (or_else cwo 0 * sc) (or_else cho 0 * sc) cco)"
  using assms
  by (cases wall)
     (simp_all add: Door_def wallRunScaled_def openingCentre_def Let_def)


lemma scale_of_nonzero: "scale_of p \<noteq> 0"
  by (simp add: scale_of_def roomWidth_of_def roomHeight_of_def or_else_def canvasWidth_def
      canvasHeight_def min_def Let_def)

lemma clampDoorPos_inside:
  assumes "dw / L / 2 + 0.02 \<le> n" "n \<le> 1 - dw / L / 2 - 0.02"
  shows "clampDoorPos dw L n = n"
  using assms by (simp add: clampDoorPos_def Let_def max_def min_def)

text \<open>
  C9: for every wall of non-zero length (a cutout wall only in an L-shaped room) and
  every pointer position whose normalized position on that wall lies within the door
  clamp margins, the position the handler computes is the pointer's coordinate along the
  wall minus the wall's offset, divided by the wall's length; the clamp leaves it
  unchanged; and the door that \<open>Door\<close> derives from it has the centre of its opening at
  the pointer's coordinate along the wall. For the wall closest to the pointer this is
  the position the door drag commits. (Numbers are exact reals here, so the round trip is
  exact.)
\<close>

theorem door_round_trip:
  assumes len: "wallLengthScaled_of p wall \<noteq> 0"
    and cut: "wall \<in> {cutout_horizontal, cutout_vertical} \<longrightarrow> isLShape_of p"
    and lo: "or_else (prop_doorWidth p) 1 / effectiveWallLength_of p wall / 2 + 0.02
               \<le> normalizePos wall (localX_of p svgP) (localY_of p svgP)
                    (wallLengthScaled_of p wall) (wallOffsetScaled_of p wall)"
    and hi: "normalizePos wall (localX_of p svgP) (localY_of p svgP)
               (wallLengthScaled_of p wall) (wallOffsetScaled_of p wall)
             \<le> 1 - or_else (prop_doorWidth p) 1 / effectiveWallLength_of p wall / 2 - 0.02"
  shows "let position = clampDoorPos (or_else (prop_doorWidth p) 1) (effectiveWallLength_of p wall)
                          (normalizePos wall (localX_of p svgP) (localY_of p svgP)
                             (wallLengthScaled_of p wall) (wallOffsetScaled_of p wall));
             g = Door wall position (or_else (prop_doorWidth p) 1) (roomWidth_of p)
                   (roomHeight_of p) (scale_of p) (prop_shape p) (prop_shapeCutoutWidth p)
                   (prop_shapeCutoutHeight p) (prop_shapeCutoutCorner p)
         in position = (alongWall wall (localX_of p svgP) (localY_of p svgP)
                          - wallOffsetScaled_of p wall) / wallLengthScaled_of p wall \<and>
            alongWall wall (fst (openingCentre g)) (snd (openingCentre g))
              = alongWall wall (localX_of p svgP) (localY_of p svgP) \<and>
            (wall = newWall_of p svgP \<longrightarrow> doorDrag p svgP = (wall, Finite position))"
proof -
  define n where "n = normalizePos wall (localX_of p svgP) (localY_of p svgP)
                    (wallLengthScaled_of p wall) (wallOffsetScaled_of p wall)"
  have pos: "clampDoorPos (or_else (prop_doorWidth p) 1) (effectiveWallLength_of p wall) n = n"
    using lo hi unfolding n_def by (rule clampDoorPos_inside)
  have n: "n = (alongWall wall (localX_of p svgP) (localY_of p svgP)
                  - wallOffsetScaled_of p wall) / wallLengthScaled_of p wall"
    by (simp add: n_def normalizePos_def)
  have c: "wall \<in> {cutout_horizontal, cutout_vertical} \<longrightarrow>
      isLShape (prop_shape p) (prop_shapeCutoutWidth p) (prop_shapeCutoutHeight p)
        (prop_shapeCutoutCorner p)"
    using cut by (simp add: isLShape_of_def)
  have "alongWall wall
          (fst (openingCentre (Door wall n (or_else (prop_doorWidth p) 1) (roomWidth_of p)
                   (roomHeight_of p) (scale_of p) (prop_shape p) (prop_shapeCutoutWidth p)
                   (prop_shapeCutoutHeight p) (prop_shapeCutoutCorner p))))
          (snd (openingCentre (Door wall n (or_else (prop_doorWidth p) 1) (roomWidth_of p)
                   (roomHeight_of p) (scale_of p) (prop_shape p) (prop_shapeCutoutWidth p)
                   (prop_shapeCutoutHeight p) (prop_shapeCutoutCorner p))))
        = wallOffsetScaled_of p wall + n * wallLengthScaled_of p wall"
    unfolding Door_centre_along [OF c]
    by (simp add: wallOffsetScaled_of_def wallLengthScaled_of_def isLShape_of_def rw_of_def
        rh_of_def cw_of_def ch_of_def)
  also have "\<dots> = alongWall wall (localX_of p svgP) (localY_of p svgP)"
    using len by (simp add: n)
  finally have centre: "alongWall wall
          (fst (openingCentre (Door wall n (or_else (prop_doorWidth p) 1) (roomWidth_of p)
                   (roomHeight_of p) (scale_of p) (prop_shape p) (prop_shapeCutoutWidth p)
                   (prop_shapeCutoutHeight p) (prop_shapeCutoutCorner p))))
          (snd (openingCentre (Door wall n (or_else (prop_doorWidth p) 1) (roomWidth_of p)
                   (roomHeight_of p) (scale_of p) (prop_shape p) (prop_shapeCutoutWidth p)
                   (prop_shapeCutoutHeight p) (prop_shapeCutoutCorner p))))
        = alongWall wall (localX_of p svgP) (localY_of p svgP)" .
  have drag: "doorDrag p svgP = (wall, Finite n)" if "wall = newWall_of p svgP"
    using that len pos scale_of_nonzero [of p]
    by (simp add: doorDrag_def Let_def n_def)
  show ?thesis
    unfolding Let_def n_def [symmetric] pos
    using n centre drag by blast
qed

theorem door_round_trip_witness:
  "doorDrag roomL (298, 555) = (south, Finite 0.5) \<and>
   localX_of roomL (298, 555) = 153 \<and>
   fst (openingCentre (Door south 0.5 1 10 10 51 l_shape (Some 4) (Some 4) (Some bottom_right)))
     = 153"
proof -
  have w: "south = newWall_of roomL (298, 555)"
    by (simp add: door_defs canvas_defs roomL_def distToCutoutH_def distToCutoutV_def)
  have l: "wallLengthScaled_of roomL south = 306" "wallOffsetScaled_of roomL south = 0"
    "effectiveWallLength_of roomL south = 6"
    by (simp_all add: door_defs canvas_defs roomL_def)
  have x: "localX_of roomL (298, 555) = 153" "localY_of roomL (298, 555) = 510"
    by (simp_all add: door_defs canvas_defs roomL_def)
  have d: "or_else (prop_doorWidth roomL) 1 = 1" "roomWidth_of roomL = 10"
    "roomHeight_of roomL = 10" "scale_of roomL = 51"
    by (simp_all add: canvas_defs roomL_def)
  have f: "prop_shape roomL = l_shape" "prop_shapeCutoutWidth roomL = Some 4"
    "prop_shapeCutoutHeight roomL = Some 4" "prop_shapeCutoutCorner roomL = Some bottom_right"
    by (simp_all add: roomL_def)
  have n: "normalizePos south 153 510 306 0 = 1 / 2"
    by (simp add: normalizePos_def)
  have c: "clampDoorPos 1 6 (1 / 2) = 1 / 2"
    by (simp add: clampDoorPos_def)
  show ?thesis
    using door_round_trip [of roomL south "(298, 555)"] w
    by (simp add: Let_def l x d f n c)
qed

subsection \<open>Rooms with an incomplete cutout\<close>

text \<open>
  C10 at a room of 10 by 10 whose shape is \<open>l_shape\<close>, with a cutout of 4 by 4 and no
  cutout corner: the room is not an L-shape for the inside test and the door, but
  \<open>getRoomPath\<close> checks only the width and the height, falls into the \<open>default\<close> case of
  its \<open>switch\<close> and draws the outline with a notch at the top right instead of the
  rectangle.
\<close>

theorem getRoomPath_missing_corner_draws_notch:
  "\<not> isLShape l_shape (Some 4) (Some 4) None \<and>
   getRoomPath 10 10 1 l_shape (Some 4) (Some 4) None
     = [(0, 0), (6, 0), (6, 4), (10, 4), (10, 10), (0, 10)] \<and>
   getRoomPath 10 10 1 rectangle (Some 4) (Some 4) None
     = [(0, 0), (10, 0), (10, 10), (0, 10)]"
  by (simp add: isLShape_def getRoomPath_def truthy_def)

theorem getRoomPath_missing_corner_draws_notch_witness:
  "getRoomPath 10 10 1 l_shape (Some 4) (Some 4) None
     \<noteq> getRoomPath 10 10 1 rectangle (Some 4) (Some 4) None"
  using getRoomPath_missing_corner_draws_notch by simp

lemma closestWall_no_cutout:
  "closestWall False lx ly rw rh cw ch cc = closestWall False lx ly rw rh cw' ch' cc'"
  "closestWall False lx ly rw rh cw ch cc \<in> {north, south, west, east}"
  by (simp_all add: closestWall_def Let_def)

lemma wallRunScaled_no_cutout:
  assumes "wall \<in> {north, south, west, east}"
  shows "wallRunScaled wall False rw rh cw ch cc = wallRunScaled wall False rw rh cw' ch' cc'"
  using assms by (cases wall) (simp_all add: wallRunScaled_def)

lemma asRectangle_canvas:
  "roomWidth_of (asRectangle p) = roomWidth_of p"
  "roomHeight_of (asRectangle p) = roomHeight_of p"
  "scale_of (asRectangle p) = scale_of p"
  "offsetX_of (asRectangle p) = offsetX_of p"
  "offsetY_of (asRectangle p) = offsetY_of p"
  "rw_of (asRectangle p) = rw_of p"
  "rh_of (asRectangle p) = rh_of p"
  "localX_of (asRectangle p) svgP = localX_of p svgP"
  "localY_of (asRectangle p) svgP = localY_of p svgP"
  "prop_doorWidth (asRectangle p) = prop_doorWidth p"
  "\<not> isLShape_of (asRectangle p)"
  by (simp_all add: asRectangle_def roomWidth_of_def roomHeight_of_def scale_of_def
      offsetX_of_def offsetY_of_def rw_of_def rh_of_def localX_of_def localY_of_def
      isLShape_of_def isLShape_def)

lemma doorDrag_no_cutout:
  assumes "\<not> isLShape_of p"
  shows "doorDrag p svgP = doorDrag (asRectangle p) svgP"
proof -
  have w: "newWall_of (asRectangle p) svgP = newWall_of p svgP"
    "newWall_of p svgP \<in> {north, south, west, east}"
    using assms closestWall_no_cutout
    by (simp_all add: newWall_of_def asRectangle_canvas)
  have r: "wallLengthScaled_of (asRectangle p) (newWall_of p svgP)
             = wallLengthScaled_of p (newWall_of p svgP)"
    "wallOffsetScaled_of (asRectangle p) (newWall_of p svgP)
             = wallOffsetScaled_of p (newWall_of p svgP)"
    using assms
      wallRunScaled_no_cutout [OF w(2), of "rw_of p" "rh_of p" "cw_of (asRectangle p)"
        "ch_of (asRectangle p)" "prop_shapeCutoutCorner (asRectangle p)" "cw_of p" "ch_of p"
        "prop_shapeCutoutCorner p"]
    by (simp_all add: wallLengthScaled_of_def wallOffsetScaled_of_def asRectangle_canvas)
  show ?thesis
    by (simp add: doorDrag_def Let_def w(1) r effectiveWallLength_of_def asRectangle_canvas)
qed

lemma Door_no_cutout:
  assumes "\<not> isLShape shape cwo cho cco"
  shows "Door wall position dw W H sc shape cwo cho cco
       = Door wall position dw W H sc rectangle None None None"
proof -
  have r: "\<not> isLShape rectangle None None None"
    by (simp add: isLShape_def)
  show ?thesis
    using assms r by (cases wall) (simp_all add: Door_def Let_def)
qed

text \<open>
  What holds of a room whose shape is \<open>l_shape\<close> with an incomplete cutout: the inside
  test, the door geometry and the door drag are those of the plain rectangle room; the
  outline is the rectangle when the width or the height is missing, and the outline of a
  top-right cutout when only the corner is.
\<close>

lemma missing_cutout_is_rectangle:
  assumes shp: "prop_shape p = l_shape" and miss: "\<not> isLShape_of p"
  shows "isInsideRoom x y w h (roomWidth_of p) (roomHeight_of p) (prop_shape p)
           (prop_shapeCutoutWidth p) (prop_shapeCutoutHeight p) (prop_shapeCutoutCorner p)
         = isInsideRoom x y w h (roomWidth_of p) (roomHeight_of p) rectangle None None None \<and>
         Door wall position dw (roomWidth_of p) (roomHeight_of p) sc (prop_shape p)
           (prop_shapeCutoutWidth p) (prop_shapeCutoutHeight p) (prop_shapeCutoutCorner p)
         = Door wall position dw (roomWidth_of p) (roomHeight_of p) sc rectangle None None None \<and>
         doorDrag p svgP = doorDrag (asRectangle p) svgP \<and>
         getRoomPath (roomWidth_of p) (roomHeight_of p) sc (prop_shape p)
           (prop_shapeCutoutWidth p) (prop_shapeCutoutHeight p) (prop_shapeCutoutCorner p)
         = (if truthy (prop_shapeCutoutWidth p) \<and> truthy (prop_shapeCutoutHeight p)
            then getRoomPath (roomWidth_of p) (roomHeight_of p) sc l_shape
                   (prop_shapeCutoutWidth p) (prop_shapeCutoutHeight p) (Some top_right)
            else getRoomPath (roomWidth_of p) (roomHeight_of p) sc rectangle None None None)"
proof -
  have m: "\<not> isLShape (prop_shape p) (prop_shapeCutoutWidth p) (prop_shapeCutoutHeight p)
             (prop_shapeCutoutCorner p)"
    using miss by (simp add: isLShape_of_def)
  then have c: "\<not> truthy (prop_shapeCutoutWidth p) \<or> \<not> truthy (prop_shapeCutoutHeight p)
      \<or> prop_shapeCutoutCorner p = None"
    using shp by (simp add: isLShape_def)
  have i: "isInsideRoom x y w h (roomWidth_of p) (roomHeight_of p) (prop_shape p)
           (prop_shapeCutoutWidth p) (prop_shapeCutoutHeight p) (prop_shapeCutoutCorner p)
         = isInsideRoom x y w h (roomWidth_of p) (roomHeight_of p) rectangle None None None"
    using c by (auto simp: isInsideRoom_def)
  have g: "getRoomPath (roomWidth_of p) (roomHeight_of p) sc (prop_shape p)
           (prop_shapeCutoutWidth p) (prop_shapeCutoutHeight p) (prop_shapeCutoutCorner p)
         = (if truthy (prop_shapeCutoutWidth p) \<and> truthy (prop_shapeCutoutHeight p)
            then getRoomPath (roomWidth_of p) (roomHeight_of p) sc l_shape
                   (prop_shapeCutoutWidth p) (prop_shapeCutoutHeight p) (Some top_right)
            else getRoomPath (roomWidth_of p) (roomHeight_of p) sc rectangle None None None)"
    using c shp by (auto simp: getRoomPath_def Let_def)
  show ?thesis
    using i g Door_no_cutout [OF m] doorDrag_no_cutout [OF miss] by simp
qed


lemma missing_cutout_is_rectangle_example:
  "isInsideRoom 6 6 4 4 10 10 l_shape (Some 4) None (Some bottom_right) \<and>
   wallLength (Door south 0.5 1 10 10 1 l_shape (Some 4) None (Some bottom_right)) = 10 \<and>
   doorDrag (roomL \<lparr> prop_shapeCutoutHeight := None \<rparr>) (298, 555) = (south, Finite 0.3) \<and>
   getRoomPath 10 10 1 l_shape (Some 4) None (Some bottom_right)
     = [(0, 0), (10, 0), (10, 10), (0, 10)]"
proof -
  define q where "q = roomL \<lparr> prop_shapeCutoutHeight := None \<rparr>"
  have s: "prop_shape q = l_shape"
    by (simp add: q_def roomL_def)
  have m: "\<not> isLShape_of q"
    by (simp add: q_def roomL_def isLShape_of_def isLShape_def truthy_def)
  have f: "roomWidth_of q = 10" "roomHeight_of q = 10" "prop_shapeCutoutWidth q = Some 4"
    "prop_shapeCutoutHeight q = None" "prop_shapeCutoutCorner q = Some bottom_right"
    by (simp_all add: q_def roomL_def canvas_defs)
  have i: "isInsideRoom 6 6 4 4 10 10 rectangle None None None"
    by (simp add: isInsideRoom_def)
  have d: "wallLength (Door south (1 / 2) 1 10 10 1 rectangle None None None) = 10"
    by (simp add: Door_def isLShape_def Let_def)
  have r: "doorDrag (asRectangle q) (298, 555) = (south, Finite 0.3)"
    by (simp add: doorDrag_def door_defs canvas_defs asRectangle_def q_def roomL_def)
  have g: "getRoomPath 10 10 1 rectangle None None None = [(0, 0), (10, 0), (10, 10), (0, 10)]"
    by (simp add: getRoomPath_def)
  show ?thesis
    using missing_cutout_is_rectangle [OF s m, of 6 6 4 4 south "0.5" 1 1 "(298, 555)"]
    by (simp add: f s i d r g truthy_def q_def [symmetric])
qed

end
